theory Spec2Isabelle
  imports Main "HOL-Library.Word"
begin

unbundle bit_operations_syntax

chapter \<open>go-puzzle-proxy: the cache-or-generate request handler\<close>

text \<open>
  A shallow embedding of \<^verbatim>\<open>main.go\<close>, \<^verbatim>\<open>database.go\<close>, \<^verbatim>\<open>gemini_service.go\<close> and the model
  types.  Go's \<^verbatim>\<open>string\<close> and \<^verbatim>\<open>[]byte\<close> are byte sequences and are modelled by
  \<^typ>\<open>string\<close> (a list of 8-bit characters).  A \<^verbatim>\<open>[]byte\<close> result that the code compares
  with \<^verbatim>\<open>nil\<close> is an \<^typ>\<open>string option\<close>.  Calls to \<^verbatim>\<open>log.Printf\<close> have no effect on
  the response, the table or the provider and are left out.
\<close>

section \<open>crypto/sha256 and encoding/hex\<close>

text \<open>
  SHA-256 as in FIPS 180-4.  A 32-bit word is a natural number below \<open>2 ^ 32\<close>; every
  addition is reduced modulo \<open>2 ^ 32\<close> and every left shift is truncated to 32 bits.
  The round constants and the initial state are written in decimal.
\<close>

definition add32 :: "nat \<Rightarrow> nat \<Rightarrow> nat" where
  "add32 x y = (x + y) mod 4294967296"

definition rotr :: "nat \<Rightarrow> nat \<Rightarrow> nat" where
  "rotr n x = drop_bit n x OR take_bit 32 (push_bit (32 - n) x)"

definition not32 :: "nat \<Rightarrow> nat" where
  "not32 x = x XOR 4294967295"

definition K256 :: "nat list" where
  "K256 = [
  1116352408, 1899447441, 3049323471, 3921009573, 961987163, 1508970993, 2453635748, 2870763221,
  3624381080, 310598401, 607225278, 1426881987, 1925078388, 2162078206, 2614888103, 3248222580,
  3835390401, 4022224774, 264347078, 604807628, 770255983, 1249150122, 1555081692, 1996064986,
  2554220882, 2821834349, 2952996808, 3210313671, 3336571891, 3584528711, 113926993, 338241895,
  666307205, 773529912, 1294757372, 1396182291, 1695183700, 1986661051, 2177026350, 2456956037,
  2730485921, 2820302411, 3259730800, 3345764771, 3516065817, 3600352804, 4094571909, 275423344,
  430227734, 506948616, 659060556, 883997877, 958139571, 1322822218, 1537002063, 1747873779,
  1955562222, 2024104815, 2227730452, 2361852424, 2428436474, 2756734187, 3204031479, 3329325298]"

type_synonym sha_state = "nat \<times> nat \<times> nat \<times> nat \<times> nat \<times> nat \<times> nat \<times> nat"

definition sha256_init :: sha_state where
  "sha256_init = (1779033703, 3144134277, 1013904242, 2773480762,
                  1359893119, 2600822924, 528734635, 1541459225)"

definition ssig0 :: "nat \<Rightarrow> nat" where
  "ssig0 x = rotr 7 x XOR rotr 18 x XOR drop_bit 3 x"

definition ssig1 :: "nat \<Rightarrow> nat" where
  "ssig1 x = rotr 17 x XOR rotr 19 x XOR drop_bit 10 x"

definition bsig0 :: "nat \<Rightarrow> nat" where
  "bsig0 x = rotr 2 x XOR rotr 13 x XOR rotr 22 x"

definition bsig1 :: "nat \<Rightarrow> nat" where
  "bsig1 x = rotr 6 x XOR rotr 11 x XOR rotr 25 x"

text \<open>Four bytes, most significant first, make one word of the block.\<close>

fun be32 :: "nat list \<Rightarrow> nat list" where
  "be32 (a # b # c # d # r) = (((a * 256 + b) * 256 + c) * 256 + d) # be32 r"
| "be32 _ = []"

text \<open>
  The message schedule: \<open>ws\<close> holds the sixteen most recent words, oldest first; each
  step emits the oldest and appends the next one.
\<close>

function schedule :: "nat \<Rightarrow> nat list \<Rightarrow> nat list" where
  "schedule n ws =
     (if n = 0 then []
      else ws ! 0 # schedule (n - 1)
             (tl ws @ [add32 (add32 (add32 (ssig1 (ws ! 14)) (ws ! 9)) (ssig0 (ws ! 1))) (ws ! 0)]))"
  by pat_completeness auto
termination
  by (relation "measure fst") auto

declare schedule.simps [simp del]

fun round1 :: "sha_state \<Rightarrow> nat \<Rightarrow> nat \<Rightarrow> sha_state" where
  "round1 (a, b, c, d, e, f, g, h) k w =
     (let t1 = add32 (add32 (add32 (add32 h (bsig1 e)) ((e AND f) XOR (not32 e AND g))) k) w;
          t2 = add32 (bsig0 a) ((a AND b) XOR (a AND c) XOR (b AND c))
      in (add32 t1 t2, a, b, c, add32 d t1, e, f, g))"

fun rounds :: "sha_state \<Rightarrow> nat list \<Rightarrow> nat list \<Rightarrow> sha_state" where
  "rounds s (k # ks) (w # ws) = rounds (round1 s k w) ks ws"
| "rounds s _ _ = s"

fun add_state :: "sha_state \<Rightarrow> sha_state \<Rightarrow> sha_state" where
  "add_state (a, b, c, d, e, f, g, h) (a', b', c', d', e', f', g', h') =
     (add32 a a', add32 b b', add32 c c', add32 d d',
      add32 e e', add32 f f', add32 g g', add32 h h')"

definition block :: "sha_state \<Rightarrow> nat list \<Rightarrow> sha_state" where
  "block s bs = add_state s (rounds s K256 (schedule 64 (be32 bs)))"

fun blocks :: "sha_state \<Rightarrow> nat list \<Rightarrow> sha_state" where
  "blocks s [] = s"
| "blocks s (b # bs) = blocks (block s (take 64 (b # bs))) (drop 64 (b # bs))"

definition be4 :: "nat \<Rightarrow> nat list" where
  "be4 n = [n div 16777216 mod 256, n div 65536 mod 256, n div 256 mod 256, n mod 256]"

definition be8 :: "nat \<Rightarrow> nat list" where
  "be8 n = be4 (n div 4294967296) @ be4 (n mod 4294967296)"

text \<open>
  Padding: the byte \<open>0x80\<close>, zero bytes up to 56 modulo 64, and the length in bits as a
  64-bit big-endian number (Go keeps the length in a \<^verbatim>\<open>uint64\<close>).
\<close>

definition pad :: "nat list \<Rightarrow> nat list" where
  "pad m = m @ [128] @ replicate ((119 - length m mod 64) mod 64) 0
             @ be8 ((length m * 8) mod 18446744073709551616)"

fun state_bytes :: "sha_state \<Rightarrow> nat list" where
  "state_bytes (a, b, c, d, e, f, g, h) =
     be4 a @ be4 b @ be4 c @ be4 d @ be4 e @ be4 f @ be4 g @ be4 h"

text \<open>
  \<^verbatim>\<open>hasher := sha256.New(); hasher.Write(reqBytes); hasher.Sum(nil)\<close>: the 32 bytes of the
  digest, each given by its value.
\<close>

definition sha256_Sum :: "string \<Rightarrow> nat list" where
  "sha256_Sum m = state_bytes (blocks sha256_init (pad (map of_char m)))"

text \<open>\<^verbatim>\<open>hex.EncodeToString\<close>: two digits of the table \<^verbatim>\<open>0123456789abcdef\<close> for each byte.\<close>

definition hextable :: string where
  "hextable = ''0123456789abcdef''"

definition hex_EncodeToString :: "nat list \<Rightarrow> string" where
  "hex_EncodeToString bs = concat (map (\<lambda>b. [hextable ! (b div 16), hextable ! (b mod 16)]) bs)"

section \<open>Errors\<close>

text \<open>
  Every \<^verbatim>\<open>error\<close> value the program can hold.  The first group are the errors of
  \<^verbatim>\<open>encoding/json\<close> (\<open>UnmarshalTypeError\<close> carries the JSON kind and the Go type); the
  second group are the errors \<^verbatim>\<open>GeneratePuzzle\<close> builds with \<^verbatim>\<open>fmt.Errorf\<close>, in the order of
  the source; \<open>StoreFault\<close> is any error of \<^verbatim>\<open>database/sql\<close> other than \<^verbatim>\<open>sql.ErrNoRows\<close>.
\<close>

datatype go_error =
    EOF
  | ErrUnexpectedEOF
  | SyntaxError
  | UnmarshalTypeError string string
  | MarshalError
  | ApiKeyNotSet
  | SchemaUnmarshalFailed go_error
  | SchemaMarshalFailed go_error
  | RequestMarshalFailed go_error
  | NewRequestFailed
  | HttpDoFailed
  | ReadBodyFailed
  | StatusNotOK nat string
  | ResponseUnmarshalFailed go_error string
  | EmptyResponse string
  | StoreFault

section \<open>Model types\<close>

text \<open>
  \<^verbatim>\<open>PuzzleRequest\<close>.  A Go slice is either \<^verbatim>\<open>nil\<close> or a sequence, and \<^verbatim>\<open>json.Marshal\<close> tells
  the two apart, so \<open>Topics\<close> is an optional list: \<open>None\<close> is the \<^verbatim>\<open>nil\<close> slice.
\<close>

record PuzzleRequest =
  GameType :: string
  Difficulty :: string
  Topics :: "string list option"
  Language :: string

definition zero_PuzzleRequest :: PuzzleRequest where
  "zero_PuzzleRequest = \<lparr>GameType = [], Difficulty = [], Topics = None, Language = []\<rparr>"

text \<open>
  The provider's envelope.  The decoder of \<^verbatim>\<open>encoding/json\<close> writes into a slice in
  place, so a slice is kept with its backing array: \<open>Slice v h\<close> has the elements \<open>v\<close>
  (\<open>None\<close> for \<^verbatim>\<open>nil\<close>) and, behind them, the elements \<open>h\<close> of the backing array that a
  later extension of the slice makes visible again.
\<close>

datatype 'a slice = Slice "'a list option" "'a list"

fun elems :: "'a slice \<Rightarrow> 'a list" where
  "elems (Slice None h) = []"
| "elems (Slice (Some xs) h) = xs"

record GeminiContentPart =
  Text :: string

record GeminiContent =
  Parts :: "GeminiContentPart slice"

record GeminiCandidate =
  Content :: GeminiContent

record GeminiAPIResponse =
  Candidates :: "GeminiCandidate slice"

definition zero_GeminiContentPart :: GeminiContentPart where
  "zero_GeminiContentPart = \<lparr>Text = []\<rparr>"

definition zero_GeminiContent :: GeminiContent where
  "zero_GeminiContent = \<lparr>Parts = Slice None []\<rparr>"

definition zero_GeminiCandidate :: GeminiCandidate where
  "zero_GeminiCandidate = \<lparr>Content = zero_GeminiContent\<rparr>"

definition zero_GeminiAPIResponse :: GeminiAPIResponse where
  "zero_GeminiAPIResponse = \<lparr>Candidates = Slice None []\<rparr>"

section \<open>unicode/utf8\<close>

definition between :: "nat \<Rightarrow> nat \<Rightarrow> nat \<Rightarrow> bool" where
  "between lo hi b = (lo \<le> b \<and> b \<le> hi)"

text \<open>
  \<^verbatim>\<open>utf8.DecodeRune\<close>, as far as its callers here need it: the number of bytes of the
  well-formed encoding at the head of the input, and 0 where Go returns
  \<^verbatim>\<open>(RuneError, 1)\<close> (or the input is empty).
\<close>

definition utf8_size :: "string \<Rightarrow> nat" where
  "utf8_size s =
     (case map of_char (take 4 s) of
        [] \<Rightarrow> 0
      | b0 # r \<Rightarrow>
          if b0 < 128 then 1
          else if b0 < 194 then 0
          else if b0 < 224 then
            (case r of b1 # _ \<Rightarrow> if between 128 191 b1 then 2 else 0 | _ \<Rightarrow> 0)
          else if b0 < 240 then
            (case r of
               b1 # b2 # _ \<Rightarrow>
                 if between (if b0 = 224 then 160 else 128) (if b0 = 237 then 159 else 191) b1
                    \<and> between 128 191 b2 then 3 else 0
             | _ \<Rightarrow> 0)
          else if b0 < 245 then
            (case r of
               b1 # b2 # b3 # _ \<Rightarrow>
                 if between (if b0 = 240 then 144 else 128) (if b0 = 244 then 143 else 191) b1
                    \<and> between 128 191 b2 \<and> between 128 191 b3 then 4 else 0
             | _ \<Rightarrow> 0)
          else 0)"

text \<open>\<^verbatim>\<open>utf8.EncodeRune\<close> for a code point that is not a surrogate.\<close>

definition utf8_EncodeRune :: "nat \<Rightarrow> string" where
  "utf8_EncodeRune r =
     map char_of
       (if r < 128 then [r]
        else if r < 2048 then [192 + r div 64, 128 + r mod 64]
        else if r < 65536 then [224 + r div 4096, 128 + r div 64 mod 64, 128 + r mod 64]
        else [240 + r div 262144, 128 + r div 4096 mod 64, 128 + r div 64 mod 64, 128 + r mod 64])"

text \<open>The encoding \<^verbatim>\<open>EF BF BD\<close> of U+FFFD, the replacement character.\<close>

definition replacement_char :: string where
  "replacement_char = [CHR 0xEF, CHR 0xBF, CHR 0xBD]"

section \<open>encoding/json: writing\<close>

definition backslash :: char where
  "backslash = CHR 0x5C"

definition dquote :: char where
  "dquote = CHR 0x22"

text \<open>
  One byte below \<open>0x80\<close> inside a JSON string, as \<^verbatim>\<open>appendString\<close> of Go 1.22 writes it with
  HTML escaping on (the default of \<^verbatim>\<open>json.Marshal\<close>).
\<close>

definition escape_byte :: "char \<Rightarrow> string" where
  "escape_byte c =
     (let b = (of_char c :: nat) in
      if c = backslash \<or> c = dquote then [backslash, c]
      else if b = 8 then [backslash, CHR ''b'']
      else if b = 12 then [backslash, CHR ''f'']
      else if b = 10 then [backslash, CHR ''n'']
      else if b = 13 then [backslash, CHR ''r'']
      else if b = 9 then [backslash, CHR ''t'']
      else if b < 32 \<or> c = CHR ''<'' \<or> c = CHR ''>'' \<or> c = CHR ''&''
        then backslash # ''u00'' @ [hextable ! (b div 16), hextable ! (b mod 16)]
      else [c])"

text \<open>
  The body of \<^verbatim>\<open>appendString\<close>: an invalid byte becomes the six characters of the
  escape for U+FFFD, U+2028 and U+2029
  are escaped, every other well-formed sequence is copied.
\<close>

function escape_string :: "string \<Rightarrow> string" where
  "escape_string [] = []"
| "escape_string (c # cs) =
     (if (of_char c :: nat) < 128 then escape_byte c @ escape_string cs
      else if utf8_size (c # cs) = 0 then backslash # ''ufffd'' @ escape_string cs
      else if take 3 (c # cs) = [CHR 0xE2, CHR 0x80, CHR 0xA8]
        then backslash # ''u2028'' @ escape_string (drop 3 (c # cs))
      else if take 3 (c # cs) = [CHR 0xE2, CHR 0x80, CHR 0xA9]
        then backslash # ''u2029'' @ escape_string (drop 3 (c # cs))
      else take (utf8_size (c # cs)) (c # cs)
             @ escape_string (drop (utf8_size (c # cs)) (c # cs)))"
  by pat_completeness auto
termination
  by (relation "measure length") auto

definition appendString :: "string \<Rightarrow> string" where
  "appendString s = dquote # escape_string s @ [dquote]"

text \<open>\<^verbatim>\<open>strings.Join\<close>.\<close>

fun strings_Join :: "string list \<Rightarrow> string \<Rightarrow> string" where
  "strings_Join [] sep = []"
| "strings_Join [x] sep = x"
| "strings_Join (x # y # ys) sep = x @ sep @ strings_Join (y # ys) sep"

text \<open>
  \<^verbatim>\<open>json.Marshal(req)\<close> for a \<^verbatim>\<open>PuzzleRequest\<close>: the fields in the order of the struct,
  under the names of their tags; a \<^verbatim>\<open>nil\<close> slice is \<^verbatim>\<open>null\<close>.  No value of this type makes
  \<^verbatim>\<open>json.Marshal\<close> fail, so the result is always \<open>Inr\<close>, of the bytes
  \<open>marshal_PuzzleRequest req\<close>.
\<close>

definition marshal_strings :: "string list option \<Rightarrow> string" where
  "marshal_strings ts =
     (case ts of
        None \<Rightarrow> ''null''
      | Some xs \<Rightarrow> ''['' @ strings_Join (map appendString xs) '','' @ '']'')"

definition marshal_PuzzleRequest :: "PuzzleRequest \<Rightarrow> string" where
  "marshal_PuzzleRequest req =
     ''{'' @ appendString ''gameType'' @ '':'' @ appendString (GameType req)
       @ '','' @ appendString ''difficulty'' @ '':'' @ appendString (Difficulty req)
       @ '','' @ appendString ''topics'' @ '':'' @ marshal_strings (Topics req)
       @ '','' @ appendString ''language'' @ '':'' @ appendString (Language req)
       @ ''}''"

definition json_Marshal_PuzzleRequest :: "PuzzleRequest \<Rightarrow> go_error + string" where
  "json_Marshal_PuzzleRequest req = Inr (marshal_PuzzleRequest req)"

section \<open>encoding/json: reading\<close>

text \<open>
  The scanner of \<^verbatim>\<open>encoding/json\<close> is a state machine that is fed one byte at a time and
  keeps a stack of the containers it is inside.  The model is that machine; completed
  values are collected into a tree, from which the second phase of the decoder fills the
  Go value.
\<close>

datatype json =
    JNull
  | JBool bool
  | JNumber string
  | JString string
  | JArray "json list"
  | JObject "(string \<times> json) list"

definition isSpace :: "char \<Rightarrow> bool" where
  "isSpace c = (c = CHR '' '' \<or> c = CHR 0x09 \<or> c = CHR 0x0D \<or> c = CHR 0x0A)"

definition isDigit :: "char \<Rightarrow> bool" where
  "isDigit c = between 48 57 (of_char c)"

definition isHex :: "char \<Rightarrow> bool" where
  "isHex c = (between 48 57 (of_char c) \<or> between 97 102 (of_char c) \<or> between 65 70 (of_char c))"

definition hexval :: "char \<Rightarrow> nat" where
  "hexval c =
     (let b = (of_char c :: nat) in
      if between 48 57 b then b - 48 else if between 97 102 b then b - 87 else b - 55)"

definition hex4 :: "string \<Rightarrow> nat" where
  "hex4 s = foldl (\<lambda>a c. a * 16 + hexval c) 0 (take 4 s)"

text \<open>\<^verbatim>\<open>getu4\<close>: the code unit of a \<^verbatim>\<open>\uXXXX\<close> escape at the head of the input, if there is one.\<close>

definition getu4 :: "string \<Rightarrow> nat option" where
  "getu4 s =
     (if length (take 6 s) = 6 \<and> take 2 s = [backslash, CHR ''u'']
         \<and> list_all isHex (take 4 (drop 2 s))
      then Some (hex4 (drop 2 s)) else None)"

definition unescape :: "char \<Rightarrow> char" where
  "unescape e =
     (if e = CHR ''b'' then CHR 0x08
      else if e = CHR ''f'' then CHR 0x0C
      else if e = CHR ''n'' then CHR 0x0A
      else if e = CHR ''r'' then CHR 0x0D
      else if e = CHR ''t'' then CHR 0x09
      else e)"

text \<open>
  \<^verbatim>\<open>unquoteBytes\<close>, applied to the inside of a string literal that the scanner has accepted:
  escapes are replaced, a pair of surrogate escapes becomes one character, a lone
  surrogate and every byte that is not well-formed UTF-8 become U+FFFD.
\<close>

function unquote :: "string \<Rightarrow> string" where
  "unquote [] = []"
| "unquote (c # cs) =
     (if c = backslash then
        (case cs of
           [] \<Rightarrow> []
         | e # r \<Rightarrow>
             if e = CHR ''u'' then
               (if between 55296 57343 (hex4 r) then
                  (case getu4 (drop 4 r) of
                     None \<Rightarrow> replacement_char @ unquote (drop 4 r)
                   | Some lo \<Rightarrow>
                       if hex4 r < 56320 \<and> between 56320 57343 lo
                       then utf8_EncodeRune ((hex4 r - 55296) * 1024 + (lo - 56320) + 65536)
                              @ unquote (drop 10 r)
                       else replacement_char @ unquote (drop 4 r))
                else utf8_EncodeRune (hex4 r) @ unquote (drop 4 r))
             else unescape e # unquote r)
      else if (of_char c :: nat) < 128 then c # unquote cs
      else if utf8_size (c # cs) = 0 then replacement_char @ unquote cs
      else take (utf8_size (c # cs)) (c # cs) @ unquote (drop (utf8_size (c # cs)) (c # cs)))"
  by pat_completeness auto
termination
  by (relation "measure length") auto

text \<open>
  The containers the scanner is inside (\<^verbatim>\<open>parseState\<close>), each with what has been read of
  it, newest first.  An object frame holds \<open>Some k\<close> from the end of the key \<open>k\<close> to the
  end of its value.
\<close>

datatype frame =
    ArrayFrame "json list"
  | ObjectFrame "(string \<times> json) list" "string option"

text \<open>The \<^verbatim>\<open>step\<close> functions of the scanner; a literal in progress carries its bytes so far.\<close>

datatype scan_state =
    BeginValueOrEmpty
  | BeginValue
  | BeginStringOrEmpty
  | BeginString
  | EndValue
  | InString string
  | InStringEsc string
  | InStringEscU nat string
  | Neg string
  | Zero string
  | One string
  | Dot string
  | Dot0 string
  | Exp string
  | ExpSign string
  | Exp0 string
  | Literal string json

text \<open>
  \<open>Complete v b\<close>: the top-level value \<open>v\<close> has ended; \<open>b\<close> tells whether the byte just
  fed belongs to it (the byte that ends a number does not).
\<close>

datatype step_result =
    Continue "frame list" scan_state
  | Complete json bool
  | ScanError

definition maxNestingDepth :: nat where
  "maxNestingDepth = 10000"

definition pushParseState :: "frame \<Rightarrow> frame list \<Rightarrow> scan_state \<Rightarrow> step_result" where
  "pushParseState f fs st = (if length fs < maxNestingDepth then Continue (f # fs) st else ScanError)"

fun close_value :: "frame list \<Rightarrow> json \<Rightarrow> step_result" where
  "close_value [] v = Complete v True"
| "close_value (ArrayFrame xs # fs) v = Continue (ArrayFrame (v # xs) # fs) EndValue"
| "close_value (ObjectFrame ms (Some k) # fs) v = Continue (ObjectFrame ((k, v) # ms) None # fs) EndValue"
| "close_value (ObjectFrame ms None # fs) v =
     (case v of JString k \<Rightarrow> Continue (ObjectFrame ms (Some k) # fs) EndValue | _ \<Rightarrow> ScanError)"

text \<open>\<^verbatim>\<open>stateEndValue\<close>, inside a container.\<close>

fun end_value :: "frame list \<Rightarrow> char \<Rightarrow> step_result" where
  "end_value [] c = ScanError"
| "end_value (ArrayFrame xs # fs) c =
     (if isSpace c then Continue (ArrayFrame xs # fs) EndValue
      else if c = CHR '','' then Continue (ArrayFrame xs # fs) BeginValue
      else if c = CHR '']'' then close_value fs (JArray (rev xs))
      else ScanError)"
| "end_value (ObjectFrame ms (Some k) # fs) c =
     (if isSpace c then Continue (ObjectFrame ms (Some k) # fs) EndValue
      else if c = CHR '':'' then Continue (ObjectFrame ms (Some k) # fs) BeginValue
      else ScanError)"
| "end_value (ObjectFrame ms None # fs) c =
     (if isSpace c then Continue (ObjectFrame ms None # fs) EndValue
      else if c = CHR '','' then Continue (ObjectFrame ms None # fs) BeginString
      else if c = CHR ''}'' then close_value fs (JObject (rev ms))
      else ScanError)"

text \<open>A number has ended at the byte \<open>c\<close>, which is then looked at by \<^verbatim>\<open>stateEndValue\<close>.\<close>

definition end_number :: "frame list \<Rightarrow> string \<Rightarrow> char \<Rightarrow> step_result" where
  "end_number fs raw c =
     (case close_value fs (JNumber (rev raw)) of
        Complete v b \<Rightarrow> Complete v False
      | Continue fs' st \<Rightarrow> end_value fs' c
      | ScanError \<Rightarrow> ScanError)"

definition begin_string :: "frame list \<Rightarrow> char \<Rightarrow> step_result" where
  "begin_string fs c =
     (if isSpace c then Continue fs BeginString
      else if c = dquote then Continue fs (InString [])
      else ScanError)"

definition begin_value :: "frame list \<Rightarrow> char \<Rightarrow> step_result" where
  "begin_value fs c =
     (if isSpace c then Continue fs BeginValue
      else if c = CHR ''{'' then pushParseState (ObjectFrame [] None) fs BeginStringOrEmpty
      else if c = CHR ''['' then pushParseState (ArrayFrame []) fs BeginValueOrEmpty
      else if c = dquote then Continue fs (InString [])
      else if c = CHR ''-'' then Continue fs (Neg [c])
      else if c = CHR ''0'' then Continue fs (Zero [c])
      else if c = CHR ''t'' then Continue fs (Literal ''rue'' (JBool True))
      else if c = CHR ''f'' then Continue fs (Literal ''alse'' (JBool False))
      else if c = CHR ''n'' then Continue fs (Literal ''ull'' JNull)
      else if between 49 57 (of_char c) then Continue fs (One [c])
      else ScanError)"

text \<open>\<^verbatim>\<open>state0\<close> and \<^verbatim>\<open>stateESign\<close>, which \<^verbatim>\<open>state1\<close> and \<^verbatim>\<open>stateE\<close> fall back to.\<close>

definition state0 :: "frame list \<Rightarrow> string \<Rightarrow> char \<Rightarrow> step_result" where
  "state0 fs raw c =
     (if c = CHR ''.'' then Continue fs (Dot (c # raw))
      else if c = CHR ''e'' \<or> c = CHR ''E'' then Continue fs (Exp (c # raw))
      else end_number fs raw c)"

definition stateESign :: "frame list \<Rightarrow> string \<Rightarrow> char \<Rightarrow> step_result" where
  "stateESign fs raw c = (if isDigit c then Continue fs (Exp0 (c # raw)) else ScanError)"

text \<open>One byte fed to the scanner.\<close>

fun step :: "frame list \<Rightarrow> scan_state \<Rightarrow> char \<Rightarrow> step_result" where
  "step fs BeginValue c = begin_value fs c"
| "step fs BeginValueOrEmpty c =
     (if isSpace c then Continue fs BeginValueOrEmpty
      else if c = CHR '']'' then close_value (tl fs) (JArray [])
      else begin_value fs c)"
| "step fs BeginString c = begin_string fs c"
| "step fs BeginStringOrEmpty c =
     (if isSpace c then Continue fs BeginStringOrEmpty
      else if c = CHR ''}'' then close_value (tl fs) (JObject [])
      else begin_string fs c)"
| "step fs EndValue c = end_value fs c"
| "step fs (InString raw) c =
     (if c = dquote then close_value fs (JString (unquote (rev raw)))
      else if c = backslash then Continue fs (InStringEsc (c # raw))
      else if (of_char c :: nat) < 32 then ScanError
      else Continue fs (InString (c # raw)))"
| "step fs (InStringEsc raw) c =
     (if c = CHR ''b'' \<or> c = CHR ''f'' \<or> c = CHR ''n'' \<or> c = CHR ''r'' \<or> c = CHR ''t''
         \<or> c = backslash \<or> c = CHR ''/'' \<or> c = dquote
      then Continue fs (InString (c # raw))
      else if c = CHR ''u'' then Continue fs (InStringEscU 4 (c # raw))
      else ScanError)"
| "step fs (InStringEscU n raw) c =
     (if isHex c
      then (if n \<le> 1 then Continue fs (InString (c # raw))
            else Continue fs (InStringEscU (n - 1) (c # raw)))
      else ScanError)"
| "step fs (Neg raw) c =
     (if c = CHR ''0'' then Continue fs (Zero (c # raw))
      else if between 49 57 (of_char c) then Continue fs (One (c # raw))
      else ScanError)"
| "step fs (One raw) c =
     (if isDigit c then Continue fs (One (c # raw)) else state0 fs raw c)"
| "step fs (Zero raw) c = state0 fs raw c"
| "step fs (Dot raw) c =
     (if isDigit c then Continue fs (Dot0 (c # raw)) else ScanError)"
| "step fs (Dot0 raw) c =
     (if isDigit c then Continue fs (Dot0 (c # raw))
      else if c = CHR ''e'' \<or> c = CHR ''E'' then Continue fs (Exp (c # raw))
      else end_number fs raw c)"
| "step fs (Exp raw) c =
     (if c = CHR ''+'' \<or> c = CHR ''-'' then Continue fs (ExpSign (c # raw))
      else stateESign fs raw c)"
| "step fs (ExpSign raw) c = stateESign fs raw c"
| "step fs (Exp0 raw) c =
     (if isDigit c then Continue fs (Exp0 (c # raw)) else end_number fs raw c)"
| "step fs (Literal rest v) c =
     (case rest of
        [] \<Rightarrow> ScanError
      | [x] \<Rightarrow> if c = x then close_value fs v else ScanError
      | x # y # ys \<Rightarrow> if c = x then Continue fs (Literal (y # ys) v) else ScanError)"

text \<open>
  The input ends.  A number at the top level ends with the input; an input of white space
  only is \<^verbatim>\<open>io.EOF\<close>; anything else is \<^verbatim>\<open>io.ErrUnexpectedEOF\<close>.
\<close>

fun at_eof :: "frame list \<Rightarrow> scan_state \<Rightarrow> go_error + json" where
  "at_eof [] BeginValue = Inl EOF"
| "at_eof [] (Zero raw) = Inr (JNumber (rev raw))"
| "at_eof [] (One raw) = Inr (JNumber (rev raw))"
| "at_eof [] (Dot0 raw) = Inr (JNumber (rev raw))"
| "at_eof [] (Exp0 raw) = Inr (JNumber (rev raw))"
| "at_eof fs st = Inl ErrUnexpectedEOF"

text \<open>
  \<^verbatim>\<open>Decoder.readValue\<close>: the first value of the input and what follows it, which the
  decoder does not look at.
\<close>

fun scan :: "frame list \<Rightarrow> scan_state \<Rightarrow> string \<Rightarrow> go_error + json \<times> string" where
  "scan fs st [] = (case at_eof fs st of Inl e \<Rightarrow> Inl e | Inr v \<Rightarrow> Inr (v, []))"
| "scan fs st (c # cs) =
     (case step fs st c of
        ScanError \<Rightarrow> Inl SyntaxError
      | Complete v b \<Rightarrow> Inr (v, if b then cs else c # cs)
      | Continue fs' st' \<Rightarrow> scan fs' st' cs)"

definition readValue :: "string \<Rightarrow> go_error + json \<times> string" where
  "readValue data = scan [] BeginValue data"

text \<open>
  \<^verbatim>\<open>checkValid\<close> of \<^verbatim>\<open>json.Unmarshal\<close>: the whole input is one value, with white space
  around it at most; every failure is a \<^verbatim>\<open>SyntaxError\<close>.
\<close>

definition checkValid :: "string \<Rightarrow> go_error + json" where
  "checkValid data =
     (case scan [] BeginValue data of
        Inl e \<Rightarrow> Inl SyntaxError
      | Inr (v, rest) \<Rightarrow> if list_all isSpace rest then Inr v else Inl SyntaxError)"

subsection \<open>Filling Go values\<close>

text \<open>
  The decoder writes into the value it is given and goes on after a value of the wrong
  kind, keeping the first such error (\<^verbatim>\<open>saveError\<close>) to return it at the end.  A decoder
  for a type takes the JSON value, the current Go value and the error saved so far.
\<close>

type_synonym 'a dec = "json \<Rightarrow> 'a \<times> go_error option \<Rightarrow> 'a \<times> go_error option"

definition saveError :: "go_error \<Rightarrow> go_error option \<Rightarrow> go_error option" where
  "saveError e saved = (case saved of None \<Rightarrow> Some e | Some e' \<Rightarrow> Some e')"

fun json_kind :: "json \<Rightarrow> string" where
  "json_kind JNull = ''null''"
| "json_kind (JBool b) = ''bool''"
| "json_kind (JNumber n) = ''number''"
| "json_kind (JString s) = ''string''"
| "json_kind (JArray xs) = ''array''"
| "json_kind (JObject ms) = ''object''"

text \<open>Into a \<^verbatim>\<open>string\<close>: \<^verbatim>\<open>null\<close> leaves it as it is.\<close>

fun dec_string :: "string dec" where
  "dec_string (JString s) (cur, saved) = (s, saved)"
| "dec_string JNull (cur, saved) = (cur, saved)"
| "dec_string v (cur, saved) = (cur, saveError (UnmarshalTypeError (json_kind v) ''string'') saved)"

text \<open>
  Into a slice (\<^verbatim>\<open>decodeState.array\<close>): element \<open>i\<close> is decoded into what the backing array
  holds at \<open>i\<close>, or into a zero value beyond it; an empty array gives a fresh empty slice
  and \<^verbatim>\<open>null\<close> gives \<^verbatim>\<open>nil\<close>.
\<close>

fun dec_elems :: "'a dec \<Rightarrow> 'a \<Rightarrow> json list \<Rightarrow> 'a list \<Rightarrow> go_error option
    \<Rightarrow> 'a list \<times> go_error option" where
  "dec_elems d zero [] old saved = ([], saved)"
| "dec_elems d zero (x # xs) old saved =
     (case d x (case old of [] \<Rightarrow> zero | y # ys \<Rightarrow> y, saved) of
        (v, saved') \<Rightarrow>
          (case dec_elems d zero xs (tl old) saved' of
             (vs, saved'') \<Rightarrow> (v # vs, saved'')))"

fun dec_slice :: "'a dec \<Rightarrow> 'a \<Rightarrow> string \<Rightarrow> 'a slice dec" where
  "dec_slice d zero ty JNull (sl, saved) = (Slice None [], saved)"
| "dec_slice d zero ty (JArray []) (sl, saved) = (Slice (Some []) [], saved)"
| "dec_slice d zero ty (JArray (x # xs)) (Slice v h, saved) =
     (case dec_elems d zero (x # xs) (elems (Slice v h) @ h) saved of
        (ys, saved') \<Rightarrow> (Slice (Some ys) (drop (length (x # xs)) (elems (Slice v h) @ h)), saved'))"
| "dec_slice d zero ty v (sl, saved) = (sl, saveError (UnmarshalTypeError (json_kind v) ty) saved)"

text \<open>
  \<^verbatim>\<open>foldName\<close>: the key of a member is matched with the field names exactly and, failing
  that, under simple case folding.  Lower-case ASCII letters fold to upper case, U+017F
  to \<open>S\<close> and U+212A to \<open>K\<close>.  The bytes of any other multi-byte character are kept: Go
  folds such a character to one outside ASCII, so with or without that step the result
  differs from the folded name of every field of this program.
\<close>

function foldName :: "string \<Rightarrow> string" where
  "foldName [] = []"
| "foldName (c # cs) =
     (if between 97 122 (of_char c) then char_of (of_char c - (32::nat)) # foldName cs
      else if take 2 (c # cs) = [CHR 0xC5, CHR 0xBF] then CHR ''S'' # foldName (drop 1 cs)
      else if take 3 (c # cs) = [CHR 0xE2, CHR 0x84, CHR 0xAA] then CHR ''K'' # foldName (drop 2 cs)
      else c # foldName cs)"
  by pat_completeness auto
termination
  by (relation "measure length") auto

definition find_field :: "string list \<Rightarrow> string \<Rightarrow> string option" where
  "find_field names key =
     (if key \<in> set names then Some key
      else find (\<lambda>n. foldName n = foldName key) names)"

text \<open>
  Into a struct (\<^verbatim>\<open>decodeState.object\<close>): the members in the order of the input, each
  into the field it names; a member that names no field is skipped; \<^verbatim>\<open>null\<close> leaves the
  struct as it is.
\<close>

fun dec_members :: "(string \<Rightarrow> 's dec option) \<Rightarrow> (string \<times> json) list
    \<Rightarrow> 's \<times> go_error option \<Rightarrow> 's \<times> go_error option" where
  "dec_members fld [] s = s"
| "dec_members fld ((k, v) # ms) s =
     dec_members fld ms (case fld k of None \<Rightarrow> s | Some d \<Rightarrow> d v s)"

fun dec_struct :: "string \<Rightarrow> (string \<Rightarrow> 's dec option) \<Rightarrow> 's dec" where
  "dec_struct ty fld (JObject ms) s = dec_members fld ms s"
| "dec_struct ty fld JNull s = s"
| "dec_struct ty fld v (cur, saved) = (cur, saveError (UnmarshalTypeError (json_kind v) ty) saved)"

text \<open>A decoder for a field becomes a decoder for the struct that holds it.\<close>

definition field :: "('s \<Rightarrow> 'a) \<Rightarrow> ('a \<Rightarrow> 's \<Rightarrow> 's) \<Rightarrow> 'a dec \<Rightarrow> 's dec" where
  "field get put d v s = (case d v (get (fst s), snd s) of (x, saved) \<Rightarrow> (put x (fst s), saved))"

subsection \<open>The request body\<close>

text \<open>
  \<^verbatim>\<open>json.NewDecoder(r.Body).Decode(&req)\<close> with \<open>req\<close> the zero \<^verbatim>\<open>PuzzleRequest\<close>.  While
  the struct is filled, the backing array of \<open>Topics\<close> is kept beside it.  The body is
  the whole byte sequence of the request; what follows its first value is not read.
\<close>

definition PuzzleRequest_field :: "string \<Rightarrow> (PuzzleRequest \<times> string list) dec option" where
  "PuzzleRequest_field key =
     (case find_field [''gameType'', ''difficulty'', ''topics'', ''language''] key of
        None \<Rightarrow> None
      | Some n \<Rightarrow>
          Some (if n = ''gameType''
                  then field (\<lambda>(r, h). GameType r) (\<lambda>x (r, h). (r\<lparr>GameType := x\<rparr>, h)) dec_string
                else if n = ''difficulty''
                  then field (\<lambda>(r, h). Difficulty r) (\<lambda>x (r, h). (r\<lparr>Difficulty := x\<rparr>, h)) dec_string
                else if n = ''topics''
                  then field (\<lambda>(r, h). Slice (Topics r) h)
                         (\<lambda>sl (r, h). case sl of Slice v h' \<Rightarrow> (r\<lparr>Topics := v\<rparr>, h'))
                         (dec_slice dec_string [] ''[]string'')
                else field (\<lambda>(r, h). Language r) (\<lambda>x (r, h). (r\<lparr>Language := x\<rparr>, h)) dec_string))"

definition json_Decode_PuzzleRequest :: "string \<Rightarrow> go_error + PuzzleRequest" where
  "json_Decode_PuzzleRequest body =
     (case readValue body of
        Inl e \<Rightarrow> Inl e
      | Inr (v, rest) \<Rightarrow>
          (case dec_struct ''main.PuzzleRequest'' PuzzleRequest_field v
                  ((zero_PuzzleRequest, []), None) of
             ((req, h), None) \<Rightarrow> Inr req
           | ((req, h), Some e) \<Rightarrow> Inl e))"

subsection \<open>The provider's envelope\<close>

definition GeminiContentPart_field :: "string \<Rightarrow> GeminiContentPart dec option" where
  "GeminiContentPart_field key =
     (case find_field [''text''] key of
        None \<Rightarrow> None
      | Some n \<Rightarrow> Some (field Text (\<lambda>x p. p\<lparr>Text := x\<rparr>) dec_string))"

definition dec_GeminiContentPart :: "GeminiContentPart dec" where
  "dec_GeminiContentPart = dec_struct ''main.GeminiContentPart'' GeminiContentPart_field"

definition GeminiContent_field :: "string \<Rightarrow> GeminiContent dec option" where
  "GeminiContent_field key =
     (case find_field [''parts''] key of
        None \<Rightarrow> None
      | Some n \<Rightarrow>
          Some (field Parts (\<lambda>x c. c\<lparr>Parts := x\<rparr>)
                  (dec_slice dec_GeminiContentPart zero_GeminiContentPart
                     ''[]main.GeminiContentPart'')))"

definition dec_GeminiContent :: "GeminiContent dec" where
  "dec_GeminiContent = dec_struct ''main.GeminiContent'' GeminiContent_field"

definition GeminiCandidate_field :: "string \<Rightarrow> GeminiCandidate dec option" where
  "GeminiCandidate_field key =
     (case find_field [''content''] key of
        None \<Rightarrow> None
      | Some n \<Rightarrow> Some (field Content (\<lambda>x c. c\<lparr>Content := x\<rparr>) dec_GeminiContent))"

definition dec_GeminiCandidate :: "GeminiCandidate dec" where
  "dec_GeminiCandidate = dec_struct ''main.GeminiCandidate'' GeminiCandidate_field"

definition GeminiAPIResponse_field :: "string \<Rightarrow> GeminiAPIResponse dec option" where
  "GeminiAPIResponse_field key =
     (case find_field [''candidates''] key of
        None \<Rightarrow> None
      | Some n \<Rightarrow>
          Some (field Candidates (\<lambda>x r. r\<lparr>Candidates := x\<rparr>)
                  (dec_slice dec_GeminiCandidate zero_GeminiCandidate
                     ''[]main.GeminiCandidate'')))"

text \<open>\<^verbatim>\<open>json.Unmarshal(bodyBytes, &geminiAPIResp)\<close>.\<close>

definition json_Unmarshal_GeminiAPIResponse :: "string \<Rightarrow> go_error + GeminiAPIResponse" where
  "json_Unmarshal_GeminiAPIResponse data =
     (case checkValid data of
        Inl e \<Rightarrow> Inl e
      | Inr v \<Rightarrow>
          (case dec_struct ''main.GeminiAPIResponse'' GeminiAPIResponse_field v
                  (zero_GeminiAPIResponse, None) of
             (resp, None) \<Rightarrow> Inr resp
           | (resp, Some e) \<Rightarrow> Inl e))"

subsection \<open>The schema document\<close>

text \<open>
  \<^verbatim>\<open>json.Unmarshal(schemaBytes, &parsedSchema)\<close> into a \<^verbatim>\<open>map[string]interface{}\<close> and
  \<^verbatim>\<open>json.Marshal(parsedSchema)\<close>.  In a map the last member of a name wins, and a map is
  written with its keys in byte order; an object of the tree below \<open>canon\<close> therefore
  has its members sorted and without duplicates.
\<close>

fun bytes_less :: "string \<Rightarrow> string \<Rightarrow> bool" where
  "bytes_less [] [] = False"
| "bytes_less [] (y # ys) = True"
| "bytes_less (x # xs) [] = False"
| "bytes_less (x # xs) (y # ys) =
     ((of_char x :: nat) < of_char y \<or> (x = y \<and> bytes_less xs ys))"

fun insert_member :: "string \<times> json \<Rightarrow> (string \<times> json) list \<Rightarrow> (string \<times> json) list" where
  "insert_member kv [] = [kv]"
| "insert_member kv (m # ms) =
     (if bytes_less (fst kv) (fst m) then kv # m # ms else m # insert_member kv ms)"

fun canon :: "json \<Rightarrow> json"
  and canon_list :: "json list \<Rightarrow> json list"
  and canon_members :: "(string \<times> json) list \<Rightarrow> (string \<times> json) list" where
  "canon (JArray xs) = JArray (canon_list xs)"
| "canon (JObject ms) = JObject (canon_members ms)"
| "canon JNull = JNull"
| "canon (JBool b) = JBool b"
| "canon (JNumber n) = JNumber n"
| "canon (JString s) = JString s"
| "canon_list [] = []"
| "canon_list (x # xs) = canon x # canon_list xs"
| "canon_members [] = []"
| "canon_members ((k, v) # ms) =
     (if k \<in> fst ` set ms then canon_members ms
      else insert_member (k, canon v) (canon_members ms))"

definition json_Unmarshal_map :: "string \<Rightarrow> go_error + json" where
  "json_Unmarshal_map data =
     (case checkValid data of
        Inl e \<Rightarrow> Inl e
      | Inr v \<Rightarrow>
          (case v of
             JObject ms \<Rightarrow> Inr (canon v)
           | JNull \<Rightarrow> Inr JNull
           | _ \<Rightarrow> Inl (UnmarshalTypeError (json_kind v) ''map[string]interface {}'')))"

text \<open>
  Go holds a JSON number of such a map as a \<^verbatim>\<open>float64\<close> and writes it from there.
  Neither schema document of this program contains a number; the text of the number
  stands in for that rendering.
\<close>

fun marshal_any :: "json \<Rightarrow> string"
  and marshal_list :: "json list \<Rightarrow> string"
  and marshal_members :: "(string \<times> json) list \<Rightarrow> string" where
  "marshal_any JNull = ''null''"
| "marshal_any (JBool b) = (if b then ''true'' else ''false'')"
| "marshal_any (JNumber n) = n"
| "marshal_any (JString s) = appendString s"
| "marshal_any (JArray xs) = ''['' @ marshal_list xs @ '']''"
| "marshal_any (JObject ms) = ''{'' @ marshal_members ms @ ''}''"
| "marshal_list [] = []"
| "marshal_list [x] = marshal_any x"
| "marshal_list (x # y # ys) = marshal_any x @ '','' @ marshal_list (y # ys)"
| "marshal_members [] = []"
| "marshal_members [(k, v)] = appendString k @ '':'' @ marshal_any v"
| "marshal_members ((k, v) # m # ms) =
     appendString k @ '':'' @ marshal_any v @ '','' @ marshal_members (m # ms)"

definition json_Marshal_any :: "json \<Rightarrow> go_error + string" where
  "json_Marshal_any v = Inr (marshal_any v)"

text \<open>
  \<^verbatim>\<open>json.Marshal(geminiReq)\<close> for the request built from the prompt and the schema: one
  content with one part, and the generation parameters, which are constants (0.7, 0.9,
  40).  The schema was written by \<^verbatim>\<open>json.Marshal\<close> and is taken over as it is.
\<close>

definition json_Marshal_GeminiRequest :: "string \<Rightarrow> string \<Rightarrow> go_error + string" where
  \<open>json_Marshal_GeminiRequest prompt responseSchema =
     Inr (''{"contents":[{"parts":[{"text":'' @ appendString prompt @ ''}]}],''
          @ ''"generationConfig":{"responseMimeType":"application/json",''
          @ ''"responseSchema":'' @ responseSchema
          @ '',"temperature":0.7,"topP":0.9,"topK":40}}'')\<close>

section \<open>gemini\_service.go\<close>

definition nl :: string where
  "nl = [CHR 0x0A]"

definition tabs :: "nat \<Rightarrow> string" where
  "tabs n = replicate n (CHR 0x09)"

text \<open>
  The two prompt templates with their four \<^verbatim>\<open>%s\<close> filled in, and the two schema
  documents, byte for byte as in the raw string literals of the source.
\<close>

definition crossword_prompt :: "string \<Rightarrow> string \<Rightarrow> string \<Rightarrow> string \<Rightarrow> string" where
  \<open>crossword_prompt difficultyString gameTypeString language topicsString =
     nl
     @ tabs 3 @ ''Generate a '' @ difficultyString @ '' '' @ gameTypeString @ '' in '' @ language @ ''.'' @ nl
     @ tabs 3 @ topicsString @ nl
     @ tabs 3 @ ''Provide a grid of 8x8 to 10x10.'' @ nl
     @ tabs 3 @ ''Return the data as a JSON object with 'gameType' (crossword), 'difficulty', 'topics', and 'crosswordData'.'' @ nl
     @ tabs 3 @ [CHR 0x27] @ ''crosswordData' should contain 'gridSize' (rows, cols) and an array of 'words'.'' @ nl
     @ tabs 3 @ ''Each 'word' object should have 'word', 'clue', 'startRow', 'startCol' (0-indexed), and 'direction' ('across' or 'down').'' @ nl
     @ tabs 3 @ ''Ensure words fit the grid and intersect correctly without gaps. All cells in a word must be valid letters.'' @ nl
     @ tabs 3 @ ''Prioritize well-formed and solvable puzzles.'' @ nl
     @ tabs 2\<close>

definition crossword_schema :: string where
  \<open>crossword_schema =
     ''{'' @ nl
     @ tabs 3 @ ''"type": "OBJECT",'' @ nl
     @ tabs 3 @ ''"properties": {'' @ nl
     @ tabs 4 @ ''"gameType": {'' @ nl
     @ tabs 5 @ ''"type": "STRING",'' @ nl
     @ tabs 5 @ ''"enum": ["crossword"]'' @ nl
     @ tabs 4 @ ''},'' @ nl
     @ tabs 4 @ ''"difficulty": {'' @ nl
     @ tabs 5 @ ''"type": "STRING",'' @ nl
     @ tabs 5 @ ''"enum": ["easy", "medium", "hard"]'' @ nl
     @ tabs 4 @ ''},'' @ nl
     @ tabs 4 @ ''"topics": {'' @ nl
     @ tabs 5 @ ''"type": "ARRAY",'' @ nl
     @ tabs 5 @ ''"items": {"type": "STRING"}'' @ nl
     @ tabs 4 @ ''},'' @ nl
     @ tabs 4 @ ''"crosswordData": {'' @ nl
     @ tabs 5 @ ''"type": "OBJECT",'' @ nl
     @ tabs 5 @ ''"properties": {'' @ nl
     @ tabs 6 @ ''"gridSize": {'' @ nl
     @ tabs 7 @ ''"type": "OBJECT",'' @ nl
     @ tabs 7 @ ''"properties": {'' @ nl
     @ tabs 8 @ ''"rows": {"type": "INTEGER"},'' @ nl
     @ tabs 8 @ ''"cols": {"type": "INTEGER"}'' @ nl
     @ tabs 7 @ ''},'' @ nl
     @ tabs 7 @ ''"required": ["rows", "cols"]'' @ nl
     @ tabs 6 @ ''},'' @ nl
     @ tabs 6 @ ''"words": {'' @ nl
     @ tabs 7 @ ''"type": "ARRAY",'' @ nl
     @ tabs 7 @ ''"items": {'' @ nl
     @ tabs 8 @ ''"type": "OBJECT",'' @ nl
     @ tabs 8 @ ''"properties": {'' @ nl
     @ tabs 9 @ ''"word": {"type": "STRING"},'' @ nl
     @ tabs 9 @ ''"clue": {"type": "STRING"},'' @ nl
     @ tabs 9 @ ''"startRow": {"type": "INTEGER"},'' @ nl
     @ tabs 9 @ ''"startCol": {"type": "INTEGER"},'' @ nl
     @ tabs 9 @ ''"direction": {'' @ nl
     @ tabs 10 @ ''"type": "STRING",'' @ nl
     @ tabs 10 @ ''"enum": ["across", "down"]'' @ nl
     @ tabs 9 @ ''}'' @ nl
     @ tabs 8 @ ''},'' @ nl
     @ tabs 8 @ ''"required": ["word", "clue", "startRow", "startCol", "direction"]'' @ nl
     @ tabs 7 @ ''}'' @ nl
     @ tabs 6 @ ''}'' @ nl
     @ tabs 5 @ ''},'' @ nl
     @ tabs 5 @ ''"required": ["gridSize", "words"]'' @ nl
     @ tabs 4 @ ''}'' @ nl
     @ tabs 3 @ ''},'' @ nl
     @ tabs 3 @ ''"required": ["gameType", "difficulty", "topics"]'' @ nl
     @ tabs 2 @ ''}''\<close>

definition wordsearch_prompt :: "string \<Rightarrow> string \<Rightarrow> string \<Rightarrow> string \<Rightarrow> string" where
  \<open>wordsearch_prompt difficultyString gameTypeString language topicsString =
     nl
     @ tabs 3 @ ''Generate a '' @ difficultyString @ '' '' @ gameTypeString @ '' in '' @ language @ ''.'' @ nl
     @ tabs 3 @ topicsString @ nl
     @ tabs 3 @ ''Provide a grid size based on difficulty: Easy (10x10), Medium (12x12), Hard (15x15).'' @ nl
     @ tabs 3 @ ''Return the data as a JSON object with 'gameType' (wordsearch), 'difficulty', 'topics', and 'wordSearchData'.'' @ nl
     @ tabs 3 @ [CHR 0x27] @ ''wordSearchData' should contain 'gridSize' (rows, cols) and a list of 'wordsToFind'.'' @ nl
     @ tabs 3 @ ''**Crucially, do NOT generate the full grid of letters. ONLY provide gridSize and wordsToFind.**'' @ nl
     @ tabs 3 @ ''The 'wordsToFind' list should contain 10-15 unique words (depending on difficulty) that are relevant to the topics and suitable for a word search puzzle (e.g., no spaces, only letters, common vocabulary).'' @ nl
     @ tabs 3 @ ''Ensure these words are always in the uppercase.'' @ nl
     @ tabs 3 @ ''Prioritize well-formed words and a good mix for the chosen difficulty.'' @ nl
     @ tabs 2\<close>

definition wordsearch_schema :: string where
  \<open>wordsearch_schema =
     ''{'' @ nl
     @ tabs 3 @ ''"type": "OBJECT",'' @ nl
     @ tabs 3 @ ''"properties": {'' @ nl
     @ tabs 4 @ ''"gameType": {'' @ nl
     @ tabs 5 @ ''"type": "STRING",'' @ nl
     @ tabs 5 @ ''"enum": ["wordsearch"]'' @ nl
     @ tabs 4 @ ''},'' @ nl
     @ tabs 4 @ ''"difficulty": {'' @ nl
     @ tabs 5 @ ''"type": "STRING",'' @ nl
     @ tabs 5 @ ''"enum": ["easy", "medium", "hard"]'' @ nl
     @ tabs 4 @ ''},'' @ nl
     @ tabs 4 @ ''"topics": {'' @ nl
     @ tabs 5 @ ''"type": "ARRAY",'' @ nl
     @ tabs 5 @ ''"items": {"type": "STRING"}'' @ nl
     @ tabs 4 @ ''},'' @ nl
     @ tabs 4 @ ''"wordSearchData": {'' @ nl
     @ tabs 5 @ ''"type": "OBJECT",'' @ nl
     @ tabs 5 @ ''"properties": {'' @ nl
     @ tabs 6 @ ''"gridSize": {'' @ nl
     @ tabs 7 @ ''"type": "OBJECT",'' @ nl
     @ tabs 7 @ ''"properties": {'' @ nl
     @ tabs 8 @ ''"rows": {"type": "INTEGER"},'' @ nl
     @ tabs 8 @ ''"cols": {"type": "INTEGER"}'' @ nl
     @ tabs 7 @ ''},'' @ nl
     @ tabs 7 @ ''"required": ["rows", "cols"]'' @ nl
     @ tabs 6 @ ''},'' @ nl
     @ tabs 6 @ ''"wordsToFind": {'' @ nl
     @ tabs 7 @ ''"type": "ARRAY",'' @ nl
     @ tabs 7 @ ''"items": {"type": "STRING"}'' @ nl
     @ tabs 6 @ ''}'' @ nl
     @ tabs 5 @ ''},'' @ nl
     @ tabs 5 @ ''"required": ["gridSize", "wordsToFind"]'' @ nl
     @ tabs 4 @ ''}'' @ nl
     @ tabs 3 @ ''},'' @ nl
     @ tabs 3 @ ''"required": ["gameType", "difficulty", "topics"]'' @ nl
     @ tabs 2 @ ''}''\<close>

section \<open>The world outside the program\<close>

text \<open>
  What the handling of one request meets outside the program text: whether the query and
  the statement sent to the database fail, the clock, what \<^verbatim>\<open>net/http\<close> returns for the
  one call to the provider, and the case tables of \<^verbatim>\<open>unicode\<close>.  Nothing is assumed
  about any of them.
\<close>

datatype http_result =
    RequestFailed
  | DoFailed
  | Response nat "string option"

text \<open>
  \<open>RequestFailed\<close>: \<^verbatim>\<open>http.NewRequest\<close> returned an error.  \<open>DoFailed\<close>: \<^verbatim>\<open>client.Do\<close> did.
  \<open>Response st b\<close>: a response with status \<open>st\<close>, whose body \<^verbatim>\<open>io.ReadAll\<close> read as \<open>b\<close>, or
  failed to read (\<open>None\<close>).
\<close>

record env =
  query_fault :: bool
  exec_fault :: bool
  now :: nat
  http_post :: "string \<Rightarrow> string \<Rightarrow> http_result"
  unicode_ToLower :: "string \<Rightarrow> string"

text \<open>What the handler does to the outside, in order.\<close>

datatype event =
    EvGetCachedPuzzle string
  | EvGeneratePuzzle PuzzleRequest
  | EvHttpPost string string
  | EvSaveCachedPuzzle string string string

section \<open>database.go\<close>

text \<open>
  The table \<^verbatim>\<open>cached_puzzles\<close>: \<^verbatim>\<open>request_hash\<close> is unique, so the table is a map from it
  to the other columns, which hold the values bound to the statement.
\<close>

record cache_row =
  request_params :: string
  response_data :: string
  created_at :: nat

type_synonym cached_puzzles = "string \<rightharpoonup> cache_row"

text \<open>
  \<^verbatim>\<open>GetCachedPuzzle\<close>: \<^verbatim>\<open>(nil, nil)\<close> when there is no row (\<^verbatim>\<open>sql.ErrNoRows\<close>),
  \<^verbatim>\<open>(nil, err)\<close> for any other error, the column \<^verbatim>\<open>response_data\<close> otherwise.
\<close>

definition GetCachedPuzzle :: "env \<Rightarrow> cached_puzzles \<Rightarrow> string \<Rightarrow> string option \<times> go_error option" where
  "GetCachedPuzzle e db requestHash =
     (if query_fault e then (None, Some StoreFault)
      else (case db requestHash of
              None \<Rightarrow> (None, None)
            | Some row \<Rightarrow> (Some (response_data row), None)))"

text \<open>
  \<^verbatim>\<open>SaveCachedPuzzle\<close>: \<^verbatim>\<open>INSERT ... ON CONFLICT (request_hash) DO UPDATE\<close>.  A statement
  that fails leaves the table as it was.
\<close>

definition SaveCachedPuzzle :: "env \<Rightarrow> cached_puzzles \<Rightarrow> string \<Rightarrow> string \<Rightarrow> string
    \<Rightarrow> go_error option \<times> cached_puzzles" where
  "SaveCachedPuzzle e db requestHash requestParams responseData =
     (if exec_fault e then (Some StoreFault, db)
      else (None, db(requestHash \<mapsto>
              \<lparr>request_params = requestParams, response_data = responseData,
               created_at = now e\<rparr>)))"

section \<open>GeneratePuzzle\<close>

record GeminiPuzzleService =
  apiKey :: string

definition geminiAPIURL :: string where
  "geminiAPIURL =
     ''https://generativelanguage.googleapis.com/v1beta/models/gemini-2.0-flash:generateContent''"

text \<open>
  \<^verbatim>\<open>strings.ToLower\<close>: on a string of ASCII only, the letters \<open>A\<close> to \<open>Z\<close> are lowered; any
  other string is mapped through \<^verbatim>\<open>unicode.ToLower\<close>, which is taken from the world.
\<close>

definition strings_ToLower :: "(string \<Rightarrow> string) \<Rightarrow> string \<Rightarrow> string" where
  "strings_ToLower uni s =
     (if list_all (\<lambda>c. (of_char c :: nat) < 128) s
      then map (\<lambda>c. if between 65 90 (of_char c) then char_of (of_char c + (32::nat)) else c) s
      else uni s)"

definition gameTypeString :: "PuzzleRequest \<Rightarrow> string" where
  "gameTypeString req =
     (if GameType req = ''crossword'' then ''crossword puzzle'' else ''word search puzzle'')"

definition len_Topics :: "PuzzleRequest \<Rightarrow> nat" where
  "len_Topics req = (case Topics req of None \<Rightarrow> 0 | Some ts \<Rightarrow> length ts)"

definition topicsString :: "PuzzleRequest \<Rightarrow> string" where
  "topicsString req =
     (if len_Topics req > 0
      then ''about '' @ strings_Join (case Topics req of None \<Rightarrow> [] | Some ts \<Rightarrow> ts) '', ''
      else ''general knowledge'')"

definition prompt_of :: "env \<Rightarrow> PuzzleRequest \<Rightarrow> string" where
  "prompt_of e req =
     (if GameType req = ''crossword''
      then crossword_prompt (strings_ToLower (unicode_ToLower e) (Difficulty req))
             (gameTypeString req) (Language req) (topicsString req)
      else wordsearch_prompt (strings_ToLower (unicode_ToLower e) (Difficulty req))
             (gameTypeString req) (Language req) (topicsString req))"

definition schemaBytes_of :: "PuzzleRequest \<Rightarrow> string" where
  "schemaBytes_of req =
     (if GameType req = ''crossword'' then crossword_schema else wordsearch_schema)"

text \<open>What the code does with the provider's answer, from the status check on.\<close>

definition extract_text :: "nat \<Rightarrow> string \<Rightarrow> go_error + string" where
  "extract_text status bodyBytes =
     (if status \<noteq> 200 then Inl (StatusNotOK status bodyBytes)
      else (case json_Unmarshal_GeminiAPIResponse bodyBytes of
              Inl e \<Rightarrow> Inl (ResponseUnmarshalFailed e bodyBytes)
            | Inr resp \<Rightarrow>
                (case elems (Candidates resp) of
                   [] \<Rightarrow> Inl (EmptyResponse bodyBytes)
                 | c # cs \<Rightarrow>
                     (case elems (Parts (Content c)) of
                        [] \<Rightarrow> Inl (EmptyResponse bodyBytes)
                      | p # ps \<Rightarrow> Inr (Text p)))))"

definition call_provider :: "env \<Rightarrow> string \<Rightarrow> string \<Rightarrow> (go_error + string) \<times> event list" where
  "call_provider e url jsonReqBody =
     (case http_post e url jsonReqBody of
        RequestFailed \<Rightarrow> (Inl NewRequestFailed, [])
      | DoFailed \<Rightarrow> (Inl HttpDoFailed, [EvHttpPost url jsonReqBody])
      | Response status None \<Rightarrow> (Inl ReadBodyFailed, [EvHttpPost url jsonReqBody])
      | Response status (Some bodyBytes) \<Rightarrow>
          (extract_text status bodyBytes, [EvHttpPost url jsonReqBody]))"

text \<open>
  The first half of \<^verbatim>\<open>GeneratePuzzle\<close> after the check of the key: the schema is parsed
  and written again, and the request to the provider is serialized.
\<close>

definition responseSchema_of :: "PuzzleRequest \<Rightarrow> go_error + string" where
  "responseSchema_of req =
     (case json_Unmarshal_map (schemaBytes_of req) of
        Inl err \<Rightarrow> Inl (SchemaUnmarshalFailed err)
      | Inr parsedSchema \<Rightarrow>
          (case json_Marshal_any parsedSchema of
             Inl err \<Rightarrow> Inl (SchemaMarshalFailed err)
           | Inr responseSchema \<Rightarrow> Inr responseSchema))"

definition jsonReqBody_of :: "env \<Rightarrow> PuzzleRequest \<Rightarrow> go_error + string" where
  "jsonReqBody_of e req =
     (case responseSchema_of req of
        Inl err \<Rightarrow> Inl err
      | Inr responseSchema \<Rightarrow>
          (case json_Marshal_GeminiRequest (prompt_of e req) responseSchema of
             Inl err \<Rightarrow> Inl (RequestMarshalFailed err)
           | Inr jsonReqBody \<Rightarrow> Inr jsonReqBody))"

text \<open>
  \<^verbatim>\<open>GeneratePuzzle\<close>: the payload or the error, and the call it made to the provider, if
  it made one.
\<close>

definition GeneratePuzzle :: "GeminiPuzzleService \<Rightarrow> env \<Rightarrow> PuzzleRequest
    \<Rightarrow> (go_error + string) \<times> event list" where
  "GeneratePuzzle s e req =
     (if apiKey s = [] \<or> apiKey s = ''YOUR_GEMINI_API_KEY_HERE'' then (Inl ApiKeyNotSet, [])
      else
        (case jsonReqBody_of e req of
           Inl err \<Rightarrow> (Inl err, [])
         | Inr jsonReqBody \<Rightarrow>
             call_provider e (geminiAPIURL @ ''?key='' @ apiKey s) jsonReqBody))"

section \<open>main.go\<close>

record http_request =
  Method :: string
  ReqBody :: string

text \<open>
  The response: the status, the content type and the body.  The body is either the bytes
  given to \<^verbatim>\<open>w.Write\<close> or the message given to \<^verbatim>\<open>http.Error\<close>, which for two of the messages
  ends with an error formatted by \<^verbatim>\<open>%v\<close>.
\<close>

datatype resp_body =
    Bytes string
  | Message string "go_error option"

record http_response =
  StatusCode :: nat
  ContentType :: string
  RespBody :: resp_body

definition http_Error :: "string \<Rightarrow> go_error option \<Rightarrow> nat \<Rightarrow> http_response" where
  "http_Error msg err code =
     \<lparr>StatusCode = code, ContentType = ''text/plain; charset=utf-8'', RespBody = Message msg err\<rparr>"

definition write_json :: "string \<Rightarrow> http_response" where
  "write_json payload =
     \<lparr>StatusCode = 200, ContentType = ''application/json'', RespBody = Bytes payload\<rparr>"

definition msg_method :: string where
  "msg_method = ''Apenas requisi'' @ [CHR 0xC3, CHR 0xA7, CHR 0xC3, CHR 0xB5] @ ''es POST s''
     @ [CHR 0xC3, CHR 0xA3] @ ''o permitidas para este endpoint.''"

definition msg_payload :: string where
  "msg_payload = ''Payload de requisi'' @ [CHR 0xC3, CHR 0xA7, CHR 0xC3, CHR 0xA3] @ ''o inv''
     @ [CHR 0xC3, CHR 0xA1] @ ''lido: ''"

definition msg_internal :: string where
  "msg_internal = ''Erro interno do servidor: Falha ao processar a requisi''
     @ [CHR 0xC3, CHR 0xA7, CHR 0xC3, CHR 0xA3] @ ''o.''"

definition msg_generate :: string where
  "msg_generate = ''Falha ao gerar quebra-cabe'' @ [CHR 0xC3, CHR 0xA7] @ ''a: ''"

text \<open>The cache key: \<^verbatim>\<open>requestHash := hex.EncodeToString(hasher.Sum(nil))\<close>.\<close>

definition requestHash_of :: "string \<Rightarrow> string" where
  "requestHash_of reqBytes = hex_EncodeToString (sha256_Sum reqBytes)"

text \<open>
  The handler from the cache lookup on, for the decoded request \<open>req\<close> and its
  serialization \<open>reqBytes\<close>.
\<close>

definition cache_or_generate :: "GeminiPuzzleService \<Rightarrow> env \<Rightarrow> cached_puzzles \<Rightarrow> PuzzleRequest
    \<Rightarrow> string \<Rightarrow> http_response \<times> cached_puzzles \<times> event list" where
  "cache_or_generate s e db req reqBytes =
     (let requestHash = requestHash_of reqBytes in
      case GetCachedPuzzle e db requestHash of
        (Some cachedResponse, err) \<Rightarrow>
          (write_json cachedResponse, db, [EvGetCachedPuzzle requestHash])
      | (None, err) \<Rightarrow>
          (case GeneratePuzzle s e req of
             (Inl gerr, evs) \<Rightarrow>
               (http_Error msg_generate (Some gerr) 500, db,
                [EvGetCachedPuzzle requestHash, EvGeneratePuzzle req] @ evs)
           | (Inr geminiResponse, evs) \<Rightarrow>
               (case SaveCachedPuzzle e db requestHash reqBytes geminiResponse of
                  (serr, db') \<Rightarrow>
                    (write_json geminiResponse, db',
                     [EvGetCachedPuzzle requestHash, EvGeneratePuzzle req] @ evs
                       @ [EvSaveCachedPuzzle requestHash reqBytes geminiResponse]))))"

text \<open>
  \<^verbatim>\<open>generatePuzzleHandler\<close>: the response, the table after the request, and the calls made.
\<close>

definition generatePuzzleHandler :: "GeminiPuzzleService \<Rightarrow> env \<Rightarrow> cached_puzzles \<Rightarrow> http_request
    \<Rightarrow> http_response \<times> cached_puzzles \<times> event list" where
  "generatePuzzleHandler s e db r =
     (if Method r \<noteq> ''POST'' then (http_Error msg_method None 405, db, [])
      else
        (case json_Decode_PuzzleRequest (ReqBody r) of
           Inl err \<Rightarrow> (http_Error msg_payload (Some err) 400, db, [])
         | Inr req \<Rightarrow>
             (case json_Marshal_PuzzleRequest req of
                Inl err \<Rightarrow> (http_Error msg_internal None 500, db, [])
              | Inr reqBytes \<Rightarrow> cache_or_generate s e db req reqBytes)))"

text \<open>A run of the server: the requests one after the other, each in its own world.\<close>

fun serve :: "GeminiPuzzleService \<Rightarrow> cached_puzzles \<Rightarrow> (env \<times> http_request) list \<Rightarrow> cached_puzzles" where
  "serve s db [] = db"
| "serve s db ((e, r) # rs) = serve s (fst (snd (generatePuzzleHandler s e db r))) rs"

text \<open>The three parts of the handler's result.\<close>

definition response_of :: "http_response \<times> cached_puzzles \<times> event list \<Rightarrow> http_response" where
  "response_of x = fst x"

definition table_of :: "http_response \<times> cached_puzzles \<times> event list \<Rightarrow> cached_puzzles" where
  "table_of x = fst (snd x)"

definition events_of :: "http_response \<times> cached_puzzles \<times> event list \<Rightarrow> event list" where
  "events_of x = snd (snd x)"

section \<open>The invariant of the table\<close>

text \<open>Every row is stored under the fingerprint of its own \<^verbatim>\<open>request_params\<close>.\<close>

definition cache_inv :: "cached_puzzles \<Rightarrow> bool" where
  "cache_inv db = (\<forall>h row. db h = Some row \<longrightarrow> h = requestHash_of (request_params row))"

section \<open>Concrete inputs\<close>

text \<open>
  The request of the scenario in the specification, its serialization, and three bodies
  that decode to it: the serialization itself, the body of the \<^verbatim>\<open>curl\<close> call in the README
  of the repository (indented, one member on a line), and a body with the members in
  another order, an unknown member and other white space.
\<close>

definition example_request :: PuzzleRequest where
  "example_request =
     \<lparr>GameType = ''crossword'', Difficulty = ''easy'',
      Topics = Some [''animals'', ''nature''], Language = ''pt''\<rparr>"

definition example_bytes :: string where
  \<open>example_bytes =
     ''{"gameType":"crossword","difficulty":"easy","topics":["animals","nature"],"language":"pt"}''\<close>

definition readme_body :: string where
  \<open>readme_body =
     ''{'' @ nl
     @ replicate 11 (CHR '' '') @ ''"gameType": "crossword",'' @ nl
     @ replicate 11 (CHR '' '') @ ''"difficulty": "easy",'' @ nl
     @ replicate 11 (CHR '' '') @ ''"topics": ["animals", "nature"],'' @ nl
     @ replicate 11 (CHR '' '') @ ''"language": "pt"'' @ nl
     @ replicate 9 (CHR '' '') @ ''}''\<close>

definition reordered_body :: string where
  \<open>reordered_body =
     ''{"language":"pt", "topics":["animals","nature"], "client":{"v":[1,2.5e3,true,null]},''
     @ '' "difficulty":"easy", "gameType":"crossword"}''\<close>

text \<open>A provider that answers every call with status 200 and one candidate of one part.\<close>

definition example_reply :: string where
  \<open>example_reply = ''{"candidates":[{"content":{"parts":[{"text":"{}"}]}}]}''\<close>

definition example_env :: env where
  "example_env =
     \<lparr>query_fault = False, exec_fault = False, now = 0,
      http_post = (\<lambda>url body. Response 200 (Some example_reply)),
      unicode_ToLower = (\<lambda>s. s)\<rparr>"

definition example_service :: GeminiPuzzleService where
  "example_service = \<lparr>apiKey = ''secret''\<rparr>"

definition example_row :: cache_row where
  \<open>example_row =
     \<lparr>request_params = example_bytes, response_data = ''{"stored":true}'', created_at = 7\<rparr>\<close>

text \<open>A table that holds one row, under the fingerprint of the request of the scenario.\<close>

definition example_table :: cached_puzzles where
  "example_table = [requestHash_of example_bytes \<mapsto> example_row]"

definition post :: "string \<Rightarrow> http_request" where
  "post body = \<lparr>Method = ''POST'', ReqBody = body\<rparr>"

text \<open>A request with an empty game type and an empty list of topics.\<close>

definition untyped_request :: PuzzleRequest where
  "untyped_request = \<lparr>GameType = [], Difficulty = ''HARD'', Topics = Some [], Language = ''en''\<rparr>"

chapter \<open>Proofs\<close>

section \<open>Evaluation on concrete inputs\<close>

text \<open>
  The facts by which the simplifier runs the scanner, the decoders, the encoder and
  SHA-256 on a given input, and the results on the inputs of the last section.
\<close>

lemma replicate_numeral: "replicate (numeral k) x = x # replicate (pred_numeral k) x"
  by (simp add: numeral_eq_Suc)

lemmas scan_eval = readValue_def checkValid_def begin_value_def begin_string_def end_number_def state0_def
  stateESign_def pushParseState_def maxNestingDepth_def isSpace_def isDigit_def isHex_def hexval_def
  hex4_def getu4_def unescape_def backslash_def dquote_def between_def utf8_size_def
  utf8_EncodeRune_def replacement_char_def char_of_def bit_Suc_0_iff nl_def tabs_def replicate_numeral

lemmas decode_eval = json_Decode_PuzzleRequest_def PuzzleRequest_field_def find_field_def field_def
  saveError_def zero_PuzzleRequest_def

lemmas marshal_eval = marshal_PuzzleRequest_def marshal_strings_def appendString_def escape_byte_def
  backslash_def dquote_def hextable_def

lemmas sha_eval = requestHash_of_def sha256_Sum_def pad_def be8_def be4_def replicate_numeral block_def
  K256_def sha256_init_def ssig0_def ssig1_def bsig0_def bsig1_def rotr_def add32_def not32_def
  hex_EncodeToString_def hextable_def schedule.simps nl_def

lemma decode_example_bytes: "json_Decode_PuzzleRequest example_bytes = Inr example_request"
  by (simp add: example_bytes_def example_request_def scan_eval decode_eval)

lemma decode_readme_body: "json_Decode_PuzzleRequest readme_body = Inr example_request"
  by (simp add: readme_body_def example_request_def scan_eval decode_eval)

lemma decode_reordered_body: "json_Decode_PuzzleRequest reordered_body = Inr example_request"
  by (simp add: reordered_body_def example_request_def scan_eval decode_eval)

lemma marshal_example_request: "marshal_PuzzleRequest example_request = example_bytes"
  by (simp add: example_bytes_def example_request_def marshal_eval)

lemma extract_example_reply: "extract_text 200 example_reply = Inr ''{}''"
  by (simp add: extract_text_def example_reply_def json_Unmarshal_GeminiAPIResponse_def
      GeminiAPIResponse_field_def GeminiCandidate_field_def GeminiContent_field_def
      GeminiContentPart_field_def dec_GeminiCandidate_def dec_GeminiContent_def
      dec_GeminiContentPart_def zero_GeminiAPIResponse_def zero_GeminiCandidate_def
      zero_GeminiContent_def zero_GeminiContentPart_def find_field_def field_def saveError_def
      scan_eval)


lemmas schema_eval = responseSchema_of_def schemaBytes_of_def json_Unmarshal_map_def json_Marshal_any_def
  appendString_def escape_byte_def hextable_def scan_eval

lemma responseSchema_of_crossword:
  assumes "GameType req = ''crossword''"
  shows \<open>responseSchema_of req = Inr
      (''{"properties":{"crosswordData":{"properties":{"gridSize":{"properties":{"cols":{''
       @ ''"type":"INTEGER"},"rows":{"type":"INTEGER"}},"required":["rows","cols"],"type":"''
       @ ''OBJECT"},"words":{"items":{"properties":{"clue":{"type":"STRING"},"direction":{"''
       @ ''enum":["across","down"],"type":"STRING"},"startCol":{"type":"INTEGER"},"startRow''
       @ ''":{"type":"INTEGER"},"word":{"type":"STRING"}},"required":["word","clue","startR''
       @ ''ow","startCol","direction"],"type":"OBJECT"},"type":"ARRAY"}},"required":["gridS''
       @ ''ize","words"],"type":"OBJECT"},"difficulty":{"enum":["easy","medium","hard"],"ty''
       @ ''pe":"STRING"},"gameType":{"enum":["crossword"],"type":"STRING"},"topics":{"items''
       @ ''":{"type":"STRING"},"type":"ARRAY"}},"required":["gameType","difficulty","topics''
       @ ''"],"type":"OBJECT"}'')\<close>
  using assms by (simp add: crossword_schema_def schema_eval)

lemma responseSchema_of_wordsearch:
  assumes "GameType req \<noteq> ''crossword''"
  shows \<open>responseSchema_of req = Inr
      (''{"properties":{"difficulty":{"enum":["easy","medium","hard"],"type":"STRING"},"g''
       @ ''ameType":{"enum":["wordsearch"],"type":"STRING"},"topics":{"items":{"type":"STRI''
       @ ''NG"},"type":"ARRAY"},"wordSearchData":{"properties":{"gridSize":{"properties":{"''
       @ ''cols":{"type":"INTEGER"},"rows":{"type":"INTEGER"}},"required":["rows","cols"],"''
       @ ''type":"OBJECT"},"wordsToFind":{"items":{"type":"STRING"},"type":"ARRAY"}},"requi''
       @ ''red":["gridSize","wordsToFind"],"type":"OBJECT"}},"required":["gameType","diffic''
       @ ''ulty","topics"],"type":"OBJECT"}'')\<close>
  using assms by (simp add: wordsearch_schema_def schema_eval)

lemma hash_example_bytes:
  "requestHash_of example_bytes = ''a0881fba48bc1179108379f9e0a8e3bebf065eaebb0737a5751943d92c75e4d8''"
  by (simp add: example_bytes_def sha_eval)

lemma hash_readme_body:
  "requestHash_of readme_body = ''0e40abb649b9c431a20d87c117318aa32f398cc693712c3ae0e1e33707a3685d''"
  by (simp add: readme_body_def sha_eval)

text \<open>The first example of FIPS 180-4: the digest of the three bytes \<^verbatim>\<open>abc\<close>.\<close>

lemma sha256_abc:
  "hex_EncodeToString (sha256_Sum ''abc'')
     = ''ba7816bf8f01cfea414140de5dae2223b00361a396177a9cb410ff61f20015ad''"
  by (simp add: sha_eval)

section \<open>The handler, path by path\<close>

lemma handler_post:
  assumes "Method r = ''POST''" and "json_Decode_PuzzleRequest (ReqBody r) = Inr req"
  shows "generatePuzzleHandler s e db r = cache_or_generate s e db req (marshal_PuzzleRequest req)"
  using assms by (simp add: generatePuzzleHandler_def json_Marshal_PuzzleRequest_def)

lemma cache_or_generate_hit:
  assumes "fst (GetCachedPuzzle e db (requestHash_of reqBytes)) = Some payload"
  shows "cache_or_generate s e db req reqBytes
           = (write_json payload, db, [EvGetCachedPuzzle (requestHash_of reqBytes)])"
proof -
  obtain err where "GetCachedPuzzle e db (requestHash_of reqBytes) = (Some payload, err)"
    using assms by (cases "GetCachedPuzzle e db (requestHash_of reqBytes)") simp
  then show ?thesis by (simp add: cache_or_generate_def)
qed

lemma cache_or_generate_failed:
  assumes "fst (GetCachedPuzzle e db (requestHash_of reqBytes)) = None"
    and "GeneratePuzzle s e req = (Inl gerr, evs)"
  shows "cache_or_generate s e db req reqBytes
           = (http_Error msg_generate (Some gerr) 500, db,
              [EvGetCachedPuzzle (requestHash_of reqBytes), EvGeneratePuzzle req] @ evs)"
proof -
  obtain err where "GetCachedPuzzle e db (requestHash_of reqBytes) = (None, err)"
    using assms(1) by (cases "GetCachedPuzzle e db (requestHash_of reqBytes)") simp
  with assms(2) show ?thesis by (simp add: cache_or_generate_def)
qed

lemma cache_or_generate_generated:
  assumes "fst (GetCachedPuzzle e db (requestHash_of reqBytes)) = None"
    and "GeneratePuzzle s e req = (Inr t, evs)"
  shows "cache_or_generate s e db req reqBytes
           = (write_json t,
              snd (SaveCachedPuzzle e db (requestHash_of reqBytes) reqBytes t),
              [EvGetCachedPuzzle (requestHash_of reqBytes), EvGeneratePuzzle req] @ evs
                @ [EvSaveCachedPuzzle (requestHash_of reqBytes) reqBytes t])"
proof -
  obtain err where "GetCachedPuzzle e db (requestHash_of reqBytes) = (None, err)"
    using assms(1) by (cases "GetCachedPuzzle e db (requestHash_of reqBytes)") simp
  with assms(2) show ?thesis
    by (simp add: cache_or_generate_def Let_def split: prod.splits)
qed

lemma GetCachedPuzzle_fault: "query_fault e \<Longrightarrow> fst (GetCachedPuzzle e db h) = None"
  by (simp add: GetCachedPuzzle_def)

lemma GetCachedPuzzle_absent:
  "\<not> query_fault e \<Longrightarrow> fst (GetCachedPuzzle e (db(h := None)) h) = None"
  by (simp add: GetCachedPuzzle_def)

lemma GetCachedPuzzle_present:
  "\<not> query_fault e \<Longrightarrow> db h = Some row \<Longrightarrow> fst (GetCachedPuzzle e db h) = Some (response_data row)"
  by (simp add: GetCachedPuzzle_def)

lemma SaveCachedPuzzle_fault: "exec_fault e \<Longrightarrow> snd (SaveCachedPuzzle e db h p d) = db"
  by (simp add: SaveCachedPuzzle_def)

lemma SaveCachedPuzzle_ok:
  "\<not> exec_fault e \<Longrightarrow> snd (SaveCachedPuzzle e db h p d)
     = db(h \<mapsto> \<lparr>request_params = p, response_data = d, created_at = now e\<rparr>)"
  by (simp add: SaveCachedPuzzle_def)

section \<open>The provider call does not depend on the store\<close>

lemma prompt_of_query_fault: "prompt_of (e\<lparr>query_fault := b\<rparr>) req = prompt_of e req"
  by (simp add: prompt_of_def)

lemma prompt_of_exec_fault: "prompt_of (e\<lparr>exec_fault := b\<rparr>) req = prompt_of e req"
  by (simp add: prompt_of_def)

lemma call_provider_query_fault:
  "call_provider (e\<lparr>query_fault := b\<rparr>) url body = call_provider e url body"
  by (simp add: call_provider_def)

lemma call_provider_exec_fault:
  "call_provider (e\<lparr>exec_fault := b\<rparr>) url body = call_provider e url body"
  by (simp add: call_provider_def)

lemma GeneratePuzzle_query_fault:
  "GeneratePuzzle s (e\<lparr>query_fault := b\<rparr>) req = GeneratePuzzle s e req"
  by (simp add: GeneratePuzzle_def jsonReqBody_of_def call_provider_query_fault
        prompt_of_query_fault cong: sum.case_cong)

lemma GeneratePuzzle_exec_fault:
  "GeneratePuzzle s (e\<lparr>exec_fault := b\<rparr>) req = GeneratePuzzle s e req"
  by (simp add: GeneratePuzzle_def jsonReqBody_of_def call_provider_exec_fault
        prompt_of_exec_fault cong: sum.case_cong)

lemma GetCachedPuzzle_exec_fault:
  "GetCachedPuzzle (e\<lparr>exec_fault := b\<rparr>) db h = GetCachedPuzzle e db h"
  by (simp add: GetCachedPuzzle_def)

section \<open>The shape of the fingerprint\<close>

lemma length_be4: "length (be4 n) = 4"
  by (simp add: be4_def)

lemma length_state_bytes: "length (state_bytes st) = 32"
  by (cases st rule: state_bytes.cases) (simp add: length_be4)

lemma length_sha256_Sum: "length (sha256_Sum m) = 32"
  by (simp add: sha256_Sum_def length_state_bytes)

lemma be4_bytes: "b \<in> set (be4 n) \<Longrightarrow> b < 256"
  by (auto simp: be4_def)

lemma state_bytes_bytes: "b \<in> set (state_bytes st) \<Longrightarrow> b < 256"
  by (cases st rule: state_bytes.cases) (auto dest: be4_bytes)

lemma length_hex: "length (hex_EncodeToString bs) = 2 * length bs"
  by (induction bs) (simp_all add: hex_EncodeToString_def)

lemma hextable_nth: "i < 16 \<Longrightarrow> hextable ! i \<in> set hextable"
proof -
  have "length hextable = 16" by (simp add: hextable_def)
  then show "i < 16 \<Longrightarrow> hextable ! i \<in> set hextable" by (metis nth_mem)
qed

lemma set_hex:
  assumes "\<forall>b \<in> set bs. b < 256"
  shows "set (hex_EncodeToString bs) \<subseteq> set hextable"
proof -
  have "hextable ! (b div 16) \<in> set hextable \<and> hextable ! (b mod 16) \<in> set hextable"
    if "b < 256" for b :: nat
  proof -
    from that have "b div 16 < 16" by simp
    moreover have "b mod 16 < 16" by simp
    ultimately show ?thesis using hextable_nth by blast
  qed
  with assms show ?thesis
    by (auto simp: hex_EncodeToString_def)
qed

lemma requestHash_shape:
  "length (requestHash_of bs) = 64 \<and> set (requestHash_of bs) \<subseteq> set ''0123456789abcdef''"
proof -
  have "\<forall>b \<in> set (sha256_Sum bs). b < 256"
    by (auto simp: sha256_Sum_def dest: state_bytes_bytes)
  then have "set (requestHash_of bs) \<subseteq> set hextable"
    unfolding requestHash_of_def by (rule set_hex)
  then show ?thesis
    by (simp add: requestHash_of_def length_hex length_sha256_Sum hextable_def)
qed


section \<open>What GeneratePuzzle does with a valid key\<close>

lemma jsonReqBody_of_total: "\<exists>b. jsonReqBody_of e req = Inr b"
proof (cases "GameType req = ''crossword''")
  case True
  then show ?thesis
    by (simp add: jsonReqBody_of_def responseSchema_of_crossword json_Marshal_GeminiRequest_def)
next
  case False
  then show ?thesis
    by (simp add: jsonReqBody_of_def responseSchema_of_wordsearch json_Marshal_GeminiRequest_def)
qed

lemma GeneratePuzzle_valid_key:
  assumes "apiKey s \<noteq> []" and "apiKey s \<noteq> ''YOUR_GEMINI_API_KEY_HERE''"
    and "jsonReqBody_of e req = Inr b"
  shows "GeneratePuzzle s e req = call_provider e (geminiAPIURL @ ''?key='' @ apiKey s) b"
  using assms by (simp add: GeneratePuzzle_def)

lemma call_provider_answered:
  assumes "http_post e url b = Response 200 (Some reply)" and "extract_text 200 reply = Inr t"
  shows "call_provider e url b = (Inr t, [EvHttpPost url b])"
  using assms by (simp add: call_provider_def)

lemma GeneratePuzzle_answered:
  assumes "apiKey s \<noteq> []" and "apiKey s \<noteq> ''YOUR_GEMINI_API_KEY_HERE''"
    and "\<And>url b. http_post e url b = Response 200 (Some reply)"
    and "extract_text 200 reply = Inr t"
  shows "fst (GeneratePuzzle s e req) = Inr t"
proof -
  obtain b where b: "jsonReqBody_of e req = Inr b"
    using jsonReqBody_of_total by blast
  have "GeneratePuzzle s e req = call_provider e (geminiAPIURL @ ''?key='' @ apiKey s) b"
    using assms(1,2) b by (rule GeneratePuzzle_valid_key)
  also have "\<dots> = (Inr t, [EvHttpPost (geminiAPIURL @ ''?key='' @ apiKey s) b])"
    using assms(3,4) by (rule call_provider_answered)
  finally show ?thesis by simp
qed

lemma GeneratePuzzle_example:
  assumes "http_post e = (\<lambda>url body. Response 200 (Some example_reply))"
  shows "fst (GeneratePuzzle example_service e req) = Inr ''{}''"
proof (rule GeneratePuzzle_answered)
  show "apiKey example_service \<noteq> []" by (simp add: example_service_def)
  show "apiKey example_service \<noteq> ''YOUR_GEMINI_API_KEY_HERE''" by (simp add: example_service_def)
  show "\<And>url b. http_post e url b = Response 200 (Some example_reply)" by (simp add: assms)
  show "extract_text 200 example_reply = Inr ''{}''" by (rule extract_example_reply)
qed

lemma post_simps: "Method (post b) = ''POST''" "ReqBody (post b) = b"
  by (simp_all add: post_def)

section \<open>The claims\<close>

text \<open>
  C8.  A request whose method is not POST is answered with status 405 and has no side
  effect: the table is as before and nothing is called, neither the cache lookup nor the
  cache write nor \<^verbatim>\<open>GeneratePuzzle\<close> nor the provider.
\<close>

theorem C8_other_method_405:
  assumes "Method r \<noteq> ''POST''"
  shows "StatusCode (response_of (generatePuzzleHandler s e db r)) = 405
       \<and> table_of (generatePuzzleHandler s e db r) = db
       \<and> events_of (generatePuzzleHandler s e db r) = []"
  using assms
  by (simp add: generatePuzzleHandler_def response_of_def table_of_def events_of_def http_Error_def)

theorem C8_witness:
  "Method \<lparr>Method = ''GET'', ReqBody = example_bytes\<rparr> \<noteq> ''POST''
   \<and> StatusCode (response_of (generatePuzzleHandler example_service example_env example_table
          \<lparr>Method = ''GET'', ReqBody = example_bytes\<rparr>)) = 405
   \<and> table_of (generatePuzzleHandler example_service example_env example_table
          \<lparr>Method = ''GET'', ReqBody = example_bytes\<rparr>) = example_table
   \<and> events_of (generatePuzzleHandler example_service example_env example_table
          \<lparr>Method = ''GET'', ReqBody = example_bytes\<rparr>) = []"
  using C8_other_method_405 [of "\<lparr>Method = ''GET'', ReqBody = example_bytes\<rparr>"
      example_service example_env example_table]
  by simp

text \<open>
  C1, as amended.  For a POST request whose body decodes to a request whose fingerprint
  has a row in the table, and whose cache lookup does not fail, the handler returns the
  stored payload byte for byte with status 200, leaves the table as it is, and makes the
  cache lookup and no other call: \<^verbatim>\<open>GeneratePuzzle\<close> is not invoked.
\<close>

theorem C1_cache_hit:
  assumes "Method r = ''POST''"
    and "json_Decode_PuzzleRequest (ReqBody r) = Inr req"
    and "db (requestHash_of (marshal_PuzzleRequest req)) = Some row"
    and "\<not> query_fault e"
  shows "response_of (generatePuzzleHandler s e db r) = write_json (response_data row)
       \<and> table_of (generatePuzzleHandler s e db r) = db
       \<and> events_of (generatePuzzleHandler s e db r)
           = [EvGetCachedPuzzle (requestHash_of (marshal_PuzzleRequest req))]"
proof -
  have "fst (GetCachedPuzzle e db (requestHash_of (marshal_PuzzleRequest req)))
          = Some (response_data row)"
    using assms(3,4) by (simp add: GetCachedPuzzle_present)
  then have "cache_or_generate s e db req (marshal_PuzzleRequest req)
      = (write_json (response_data row), db,
         [EvGetCachedPuzzle (requestHash_of (marshal_PuzzleRequest req))])"
    by (rule cache_or_generate_hit)
  then show ?thesis
    using assms(1,2) by (simp add: handler_post response_of_def table_of_def events_of_def)
qed

theorem C1_witness:
  "Method (post readme_body) = ''POST''
   \<and> json_Decode_PuzzleRequest (ReqBody (post readme_body)) = Inr example_request
   \<and> example_table (requestHash_of (marshal_PuzzleRequest example_request)) = Some example_row
   \<and> \<not> query_fault example_env
   \<and> response_of (generatePuzzleHandler example_service example_env example_table (post readme_body))
       = write_json (response_data example_row)
   \<and> table_of (generatePuzzleHandler example_service example_env example_table (post readme_body))
       = example_table
   \<and> events_of (generatePuzzleHandler example_service example_env example_table (post readme_body))
       = [EvGetCachedPuzzle (requestHash_of (marshal_PuzzleRequest example_request))]"
proof -
  have 1: "Method (post readme_body) = ''POST''" by (simp add: post_simps)
  have 2: "json_Decode_PuzzleRequest (ReqBody (post readme_body)) = Inr example_request"
    by (simp add: post_simps decode_readme_body)
  have 3: "example_table (requestHash_of (marshal_PuzzleRequest example_request)) = Some example_row"
    by (simp add: example_table_def marshal_example_request)
  have 4: "\<not> query_fault example_env" by (simp add: example_env_def)
  show ?thesis
    using 1 2 3 4
      C1_cache_hit [where r = "post readme_body" and req = example_request
        and db = example_table and row = example_row and e = example_env
        and s = example_service]
    by simp
qed

text \<open>
  C1, as stated, fails where the lookup itself fails.  The table holds a row for the
  fingerprint of the request, the query returns an error: the handler calls
  \<^verbatim>\<open>GeneratePuzzle\<close> and answers with the generated payload, not with the stored one.
\<close>

theorem C1_counterexample:
  "example_table (requestHash_of (marshal_PuzzleRequest example_request)) = Some example_row
   \<and> json_Decode_PuzzleRequest (ReqBody (post example_bytes)) = Inr example_request
   \<and> response_of (generatePuzzleHandler example_service (example_env\<lparr>query_fault := True\<rparr>)
         example_table (post example_bytes)) = write_json ''{}''
   \<and> response_of (generatePuzzleHandler example_service (example_env\<lparr>query_fault := True\<rparr>)
         example_table (post example_bytes)) \<noteq> write_json (response_data example_row)
   \<and> take 2 (events_of (generatePuzzleHandler example_service (example_env\<lparr>query_fault := True\<rparr>)
         example_table (post example_bytes)))
       = [EvGetCachedPuzzle (requestHash_of example_bytes), EvGeneratePuzzle example_request]"
proof -
  let ?e = "example_env\<lparr>query_fault := True\<rparr>"
  have dec: "json_Decode_PuzzleRequest (ReqBody (post example_bytes)) = Inr example_request"
    by (simp add: post_simps decode_example_bytes)
  have "fst (GeneratePuzzle example_service ?e example_request) = Inr ''{}''"
    by (rule GeneratePuzzle_example) (simp add: example_env_def)
  then obtain evs where gen: "GeneratePuzzle example_service ?e example_request = (Inr ''{}'', evs)"
    by (cases "GeneratePuzzle example_service ?e example_request") simp
  have miss: "fst (GetCachedPuzzle ?e example_table (requestHash_of example_bytes)) = None"
    by (simp add: GetCachedPuzzle_fault)
  have run: "generatePuzzleHandler example_service ?e example_table (post example_bytes)
      = cache_or_generate example_service ?e example_table example_request example_bytes"
    using handler_post [OF _ dec] by (simp add: post_simps marshal_example_request)
  have "cache_or_generate example_service ?e example_table example_request example_bytes
      = (write_json ''{}'',
         snd (SaveCachedPuzzle ?e example_table (requestHash_of example_bytes) example_bytes ''{}''),
         [EvGetCachedPuzzle (requestHash_of example_bytes), EvGeneratePuzzle example_request] @ evs
           @ [EvSaveCachedPuzzle (requestHash_of example_bytes) example_bytes ''{}''])"
    using miss gen by (rule cache_or_generate_generated)
  with run dec show ?thesis
    by (simp add: response_of_def events_of_def example_table_def marshal_example_request
        write_json_def example_row_def)
qed


text \<open>
  C2.  For a POST request whose body decodes to \<open>req\<close>, the key under which the handler
  looks the cache up is the lower-case hexadecimal rendering (64 digits) of the SHA-256
  digest (32 bytes) of one fixed serialization of \<open>req\<close>: its four fields in the order
  of the struct.  The key is a function of \<open>req\<close> alone: neither the table nor the world
  nor the service occurs in it, so equal requests have the same fingerprint.
\<close>

theorem C2_fingerprint:
  assumes "Method r = ''POST''"
    and "json_Decode_PuzzleRequest (ReqBody r) = Inr req"
  shows "hd (events_of (generatePuzzleHandler s e db r))
           = EvGetCachedPuzzle (hex_EncodeToString (sha256_Sum (marshal_PuzzleRequest req)))
       \<and> marshal_PuzzleRequest req
           = ''{'' @ appendString ''gameType'' @ '':'' @ appendString (GameType req)
             @ '','' @ appendString ''difficulty'' @ '':'' @ appendString (Difficulty req)
             @ '','' @ appendString ''topics'' @ '':'' @ marshal_strings (Topics req)
             @ '','' @ appendString ''language'' @ '':'' @ appendString (Language req)
             @ ''}''
       \<and> length (sha256_Sum (marshal_PuzzleRequest req)) = 32
       \<and> length (hex_EncodeToString (sha256_Sum (marshal_PuzzleRequest req))) = 64
       \<and> set (hex_EncodeToString (sha256_Sum (marshal_PuzzleRequest req)))
           \<subseteq> set ''0123456789abcdef''"
proof -
  let ?b = "marshal_PuzzleRequest req"
  have run: "generatePuzzleHandler s e db r = cache_or_generate s e db req ?b"
    using assms by (rule handler_post)
  have "hd (events_of (cache_or_generate s e db req ?b)) = EvGetCachedPuzzle (requestHash_of ?b)"
    by (simp add: cache_or_generate_def events_of_def Let_def split: prod.splits option.splits sum.splits)
  then have key: "hd (events_of (generatePuzzleHandler s e db r))
      = EvGetCachedPuzzle (hex_EncodeToString (sha256_Sum ?b))"
    by (simp add: run requestHash_of_def)
  have shape: "length (hex_EncodeToString (sha256_Sum ?b)) = 64
      \<and> set (hex_EncodeToString (sha256_Sum ?b)) \<subseteq> set ''0123456789abcdef''"
    using requestHash_shape [of ?b] by (simp add: requestHash_of_def)
  show ?thesis
    using key shape by (simp add: length_sha256_Sum marshal_PuzzleRequest_def)
qed

theorem C2_witness:
  "Method (post reordered_body) = ''POST''
   \<and> json_Decode_PuzzleRequest (ReqBody (post reordered_body)) = Inr example_request
   \<and> hd (events_of (generatePuzzleHandler example_service example_env example_table
         (post reordered_body)))
       = EvGetCachedPuzzle ''a0881fba48bc1179108379f9e0a8e3bebf065eaebb0737a5751943d92c75e4d8''"
proof -
  have 1: "Method (post reordered_body) = ''POST''" by (simp add: post_simps)
  have 2: "json_Decode_PuzzleRequest (ReqBody (post reordered_body)) = Inr example_request"
    by (simp add: post_simps decode_reordered_body)
  have "hex_EncodeToString (sha256_Sum (marshal_PuzzleRequest example_request))
      = ''a0881fba48bc1179108379f9e0a8e3bebf065eaebb0737a5751943d92c75e4d8''"
    using hash_example_bytes by (simp add: requestHash_of_def marshal_example_request)
  then show ?thesis
    using 1 2
      C2_fingerprint [where r = "post reordered_body" and req = example_request
        and s = example_service and e = example_env and db = example_table]
    by simp
qed

text \<open>
  C3.  When the cache lookup returns a store fault, the handler does not stop: it calls
  \<^verbatim>\<open>GeneratePuzzle\<close>, and its response and its calls are those of the same request on a
  table without the row and with a lookup that does not fail, that is, of a cache miss.
  The response is the generated payload when the generation succeeds and the status 500
  with the error of the generation when it fails.
\<close>

theorem C3_lookup_fault_is_miss:
  assumes "Method r = ''POST''"
    and "json_Decode_PuzzleRequest (ReqBody r) = Inr req"
    and "query_fault e"
  shows "take 2 (events_of (generatePuzzleHandler s e db r))
           = [EvGetCachedPuzzle (requestHash_of (marshal_PuzzleRequest req)), EvGeneratePuzzle req]
       \<and> response_of (generatePuzzleHandler s e db r)
           = response_of (generatePuzzleHandler s (e\<lparr>query_fault := False\<rparr>)
               (db(requestHash_of (marshal_PuzzleRequest req) := None)) r)
       \<and> events_of (generatePuzzleHandler s e db r)
           = events_of (generatePuzzleHandler s (e\<lparr>query_fault := False\<rparr>)
               (db(requestHash_of (marshal_PuzzleRequest req) := None)) r)
       \<and> response_of (generatePuzzleHandler s e db r)
           = (case fst (GeneratePuzzle s e req) of
                Inr t \<Rightarrow> write_json t
              | Inl gerr \<Rightarrow> http_Error msg_generate (Some gerr) 500)"
proof -
  let ?b = "marshal_PuzzleRequest req"
  let ?h = "requestHash_of ?b"
  let ?e' = "e\<lparr>query_fault := False\<rparr>"
  let ?db' = "db(?h := None)"
  have run: "generatePuzzleHandler s e db r = cache_or_generate s e db req ?b"
    using assms(1,2) by (rule handler_post)
  have run': "generatePuzzleHandler s ?e' ?db' r = cache_or_generate s ?e' ?db' req ?b"
    using assms(1,2) by (rule handler_post)
  have miss: "fst (GetCachedPuzzle e db ?h) = None"
    using assms(3) by (rule GetCachedPuzzle_fault)
  have miss': "fst (GetCachedPuzzle ?e' ?db' ?h) = None"
    by (rule GetCachedPuzzle_absent) simp
  obtain res evs where gen: "GeneratePuzzle s e req = (res, evs)"
    by (cases "GeneratePuzzle s e req")
  then have gen': "GeneratePuzzle s ?e' req = (res, evs)"
    by (simp add: GeneratePuzzle_query_fault)
  show ?thesis
  proof (cases res)
    case (Inl gerr)
    have "cache_or_generate s e db req ?b
        = (http_Error msg_generate (Some gerr) 500, db,
           [EvGetCachedPuzzle ?h, EvGeneratePuzzle req] @ evs)"
      using miss gen Inl by (simp add: cache_or_generate_failed)
    moreover have "cache_or_generate s ?e' ?db' req ?b
        = (http_Error msg_generate (Some gerr) 500, ?db',
           [EvGetCachedPuzzle ?h, EvGeneratePuzzle req] @ evs)"
      using miss' gen' Inl by (simp add: cache_or_generate_failed)
    ultimately show ?thesis
      using gen Inl by (simp add: run run' response_of_def events_of_def)
  next
    case (Inr t)
    have "cache_or_generate s e db req ?b
        = (write_json t, snd (SaveCachedPuzzle e db ?h ?b t),
           [EvGetCachedPuzzle ?h, EvGeneratePuzzle req] @ evs @ [EvSaveCachedPuzzle ?h ?b t])"
      using miss gen Inr by (simp add: cache_or_generate_generated)
    moreover have "cache_or_generate s ?e' ?db' req ?b
        = (write_json t, snd (SaveCachedPuzzle ?e' ?db' ?h ?b t),
           [EvGetCachedPuzzle ?h, EvGeneratePuzzle req] @ evs @ [EvSaveCachedPuzzle ?h ?b t])"
      using miss' gen' Inr by (simp add: cache_or_generate_generated)
    ultimately show ?thesis
      using gen Inr by (simp add: run run' response_of_def events_of_def)
  qed
qed

theorem C3_witness:
  "Method (post example_bytes) = ''POST''
   \<and> json_Decode_PuzzleRequest (ReqBody (post example_bytes)) = Inr example_request
   \<and> query_fault (example_env\<lparr>query_fault := True\<rparr>)
   \<and> take 2 (events_of (generatePuzzleHandler example_service (example_env\<lparr>query_fault := True\<rparr>)
         example_table (post example_bytes)))
       = [EvGetCachedPuzzle (requestHash_of example_bytes), EvGeneratePuzzle example_request]
   \<and> response_of (generatePuzzleHandler example_service (example_env\<lparr>query_fault := True\<rparr>)
         example_table (post example_bytes)) = write_json ''{}''"
proof -
  let ?e = "example_env\<lparr>query_fault := True\<rparr>"
  have 1: "Method (post example_bytes) = ''POST''" by (simp add: post_simps)
  have 2: "json_Decode_PuzzleRequest (ReqBody (post example_bytes)) = Inr example_request"
    by (simp add: post_simps decode_example_bytes)
  have 3: "query_fault ?e" by simp
  have gen: "fst (GeneratePuzzle example_service ?e example_request) = Inr ''{}''"
    by (rule GeneratePuzzle_example) (simp add: example_env_def)
  note T = C3_lookup_fault_is_miss [where r = "post example_bytes" and req = example_request
      and e = ?e and s = example_service and db = example_table, OF 1 2 3]
  have a: "take 2 (events_of (generatePuzzleHandler example_service ?e example_table
        (post example_bytes)))
      = [EvGetCachedPuzzle (requestHash_of (marshal_PuzzleRequest example_request)),
         EvGeneratePuzzle example_request]"
    using T by (rule conjunct1)
  have b: "response_of (generatePuzzleHandler example_service ?e example_table (post example_bytes))
      = (case fst (GeneratePuzzle example_service ?e example_request) of
           Inr t \<Rightarrow> write_json t
         | Inl gerr \<Rightarrow> http_Error msg_generate (Some gerr) 500)"
    using T by blast
  show ?thesis
    using 1 2 3 a b by (simp add: gen marshal_example_request)
qed

text \<open>
  C4.  When the generation has succeeded and the cache write then fails, the request
  does not fail: the handler answers with status 200 and exactly the generated payload,
  the response it gives when the write succeeds; the table is left as it was.
\<close>

theorem C4_write_fault_swallowed:
  assumes "Method r = ''POST''"
    and "json_Decode_PuzzleRequest (ReqBody r) = Inr req"
    and "fst (GetCachedPuzzle e db (requestHash_of (marshal_PuzzleRequest req))) = None"
    and "fst (GeneratePuzzle s e req) = Inr t"
    and "exec_fault e"
  shows "response_of (generatePuzzleHandler s e db r) = write_json t
       \<and> StatusCode (response_of (generatePuzzleHandler s e db r)) = 200
       \<and> RespBody (response_of (generatePuzzleHandler s e db r)) = Bytes t
       \<and> response_of (generatePuzzleHandler s e db r)
           = response_of (generatePuzzleHandler s (e\<lparr>exec_fault := False\<rparr>) db r)
       \<and> table_of (generatePuzzleHandler s e db r) = db"
proof -
  let ?b = "marshal_PuzzleRequest req"
  let ?h = "requestHash_of ?b"
  let ?e' = "e\<lparr>exec_fault := False\<rparr>"
  have run: "generatePuzzleHandler s e db r = cache_or_generate s e db req ?b"
    using assms(1,2) by (rule handler_post)
  have run': "generatePuzzleHandler s ?e' db r = cache_or_generate s ?e' db req ?b"
    using assms(1,2) by (rule handler_post)
  obtain evs where gen: "GeneratePuzzle s e req = (Inr t, evs)"
    using assms(4) by (cases "GeneratePuzzle s e req") simp
  then have gen': "GeneratePuzzle s ?e' req = (Inr t, evs)"
    by (simp add: GeneratePuzzle_exec_fault)
  have miss': "fst (GetCachedPuzzle ?e' db ?h) = None"
    using assms(3) by (simp add: GetCachedPuzzle_exec_fault)
  have "cache_or_generate s e db req ?b
      = (write_json t, snd (SaveCachedPuzzle e db ?h ?b t),
         [EvGetCachedPuzzle ?h, EvGeneratePuzzle req] @ evs @ [EvSaveCachedPuzzle ?h ?b t])"
    using assms(3) gen by (rule cache_or_generate_generated)
  moreover have "cache_or_generate s ?e' db req ?b
      = (write_json t, snd (SaveCachedPuzzle ?e' db ?h ?b t),
         [EvGetCachedPuzzle ?h, EvGeneratePuzzle req] @ evs @ [EvSaveCachedPuzzle ?h ?b t])"
    using miss' gen' by (rule cache_or_generate_generated)
  ultimately show ?thesis
    using assms(5)
    by (simp add: run run' response_of_def table_of_def SaveCachedPuzzle_fault write_json_def)
qed

theorem C4_witness:
  "Method (post readme_body) = ''POST''
   \<and> json_Decode_PuzzleRequest (ReqBody (post readme_body)) = Inr example_request
   \<and> fst (GetCachedPuzzle (example_env\<lparr>exec_fault := True\<rparr>) Map.empty
        (requestHash_of (marshal_PuzzleRequest example_request))) = None
   \<and> fst (GeneratePuzzle example_service (example_env\<lparr>exec_fault := True\<rparr>) example_request)
       = Inr ''{}''
   \<and> exec_fault (example_env\<lparr>exec_fault := True\<rparr>)
   \<and> response_of (generatePuzzleHandler example_service (example_env\<lparr>exec_fault := True\<rparr>)
         Map.empty (post readme_body)) = write_json ''{}''
   \<and> table_of (generatePuzzleHandler example_service (example_env\<lparr>exec_fault := True\<rparr>)
         Map.empty (post readme_body)) = Map.empty"
proof -
  let ?e = "example_env\<lparr>exec_fault := True\<rparr>"
  have 1: "Method (post readme_body) = ''POST''" by (simp add: post_simps)
  have 2: "json_Decode_PuzzleRequest (ReqBody (post readme_body)) = Inr example_request"
    by (simp add: post_simps decode_readme_body)
  have 3: "fst (GetCachedPuzzle ?e Map.empty
      (requestHash_of (marshal_PuzzleRequest example_request))) = None"
    by (simp add: GetCachedPuzzle_def)
  have 4: "fst (GeneratePuzzle example_service ?e example_request) = Inr ''{}''"
    by (rule GeneratePuzzle_example) (simp add: example_env_def)
  have 5: "exec_fault ?e" by simp
  show ?thesis
    using 1 2 3 4 5
      C4_write_fault_swallowed [where r = "post readme_body" and req = example_request
        and e = ?e and s = example_service and db = Map.empty and t = "''{}''"]
    by simp
qed


text \<open>
  C9.  Two POST bodies that decode to the same request (they may differ in the order of
  the members, in white space, in members that name no field) give the same fingerprint,
  the one of the serialization of the decoded request, and so the same cache lookup; the
  handler does the same on both: same response, same table, same calls.
\<close>

theorem C9_same_request_same_entry:
  assumes "Method r1 = ''POST''" and "Method r2 = ''POST''"
    and "json_Decode_PuzzleRequest (ReqBody r1) = Inr req"
    and "json_Decode_PuzzleRequest (ReqBody r2) = Inr req"
  shows "generatePuzzleHandler s e db r1 = generatePuzzleHandler s e db r2
       \<and> hd (events_of (generatePuzzleHandler s e db r1))
           = EvGetCachedPuzzle (requestHash_of (marshal_PuzzleRequest req))
       \<and> hd (events_of (generatePuzzleHandler s e db r2))
           = EvGetCachedPuzzle (requestHash_of (marshal_PuzzleRequest req))"
proof -
  let ?b = "marshal_PuzzleRequest req"
  have 1: "generatePuzzleHandler s e db r1 = cache_or_generate s e db req ?b"
    using assms(1,3) by (rule handler_post)
  have 2: "generatePuzzleHandler s e db r2 = cache_or_generate s e db req ?b"
    using assms(2,4) by (rule handler_post)
  have "hd (events_of (cache_or_generate s e db req ?b)) = EvGetCachedPuzzle (requestHash_of ?b)"
    by (simp add: cache_or_generate_def events_of_def Let_def
        split: prod.splits option.splits sum.splits)
  then show ?thesis by (simp add: 1 2)
qed

theorem C9_witness:
  "Method (post readme_body) = ''POST'' \<and> Method (post reordered_body) = ''POST''
   \<and> json_Decode_PuzzleRequest (ReqBody (post readme_body)) = Inr example_request
   \<and> json_Decode_PuzzleRequest (ReqBody (post reordered_body)) = Inr example_request
   \<and> readme_body \<noteq> reordered_body
   \<and> generatePuzzleHandler example_service example_env example_table (post readme_body)
       = generatePuzzleHandler example_service example_env example_table (post reordered_body)
   \<and> hd (events_of (generatePuzzleHandler example_service example_env example_table
         (post readme_body))) = EvGetCachedPuzzle (requestHash_of example_bytes)
   \<and> hd (events_of (generatePuzzleHandler example_service example_env example_table
         (post reordered_body))) = EvGetCachedPuzzle (requestHash_of example_bytes)"
proof -
  have 1: "Method (post readme_body) = ''POST''" by (simp add: post_simps)
  have 2: "Method (post reordered_body) = ''POST''" by (simp add: post_simps)
  have 3: "json_Decode_PuzzleRequest (ReqBody (post readme_body)) = Inr example_request"
    by (simp add: post_simps decode_readme_body)
  have 4: "json_Decode_PuzzleRequest (ReqBody (post reordered_body)) = Inr example_request"
    by (simp add: post_simps decode_reordered_body)
  have 5: "readme_body \<noteq> reordered_body"
    by (simp add: readme_body_def reordered_body_def nl_def)
  note T = C9_same_request_same_entry [where ?r1.0 = "post readme_body"
      and ?r2.0 = "post reordered_body" and req = example_request and s = example_service
      and e = example_env and db = example_table, OF 1 2 3 4]
  show ?thesis
    using 1 2 3 4 5 T by (simp add: marshal_example_request)
qed

text \<open>
  C10.  The bytes from which the handler computes the fingerprint are the bytes it hands
  to the upsert as \<^verbatim>\<open>request_params\<close>: in every call of \<^verbatim>\<open>SaveCachedPuzzle\<close> the handler
  makes, the hash is the lower-case hexadecimal SHA-256 of the parameters.  So a table
  in which every row is stored under the fingerprint of its \<^verbatim>\<open>request_params\<close> stays so
  through any run of the server; the empty table is such a table.
\<close>

lemma GeneratePuzzle_no_save: "EvSaveCachedPuzzle h p d \<notin> set (snd (GeneratePuzzle s e req))"
  by (auto simp: GeneratePuzzle_def call_provider_def
      split: sum.splits http_result.splits option.splits)

lemma cache_or_generate_saves:
  assumes "EvSaveCachedPuzzle h p d \<in> set (events_of (cache_or_generate s e db req b))"
  shows "p = b \<and> h = requestHash_of b"
proof -
  obtain res evs where gen: "GeneratePuzzle s e req = (res, evs)"
    by (cases "GeneratePuzzle s e req")
  then have "EvSaveCachedPuzzle h p d \<notin> set evs"
    using GeneratePuzzle_no_save [of h p d s e req] by simp
  with assms gen show ?thesis
    by (auto simp: cache_or_generate_def events_of_def Let_def
        split: prod.splits option.splits sum.splits)
qed

lemma cache_or_generate_inv:
  assumes "cache_inv db"
  shows "cache_inv (table_of (cache_or_generate s e db req b))"
proof -
  have "table_of (cache_or_generate s e db req b) = db
      \<or> (\<exists>t. table_of (cache_or_generate s e db req b)
            = db(requestHash_of b \<mapsto>
                \<lparr>request_params = b, response_data = t, created_at = now e\<rparr>))"
    by (auto simp: cache_or_generate_def table_of_def Let_def SaveCachedPuzzle_def
        split: prod.splits option.splits sum.splits)
  then show ?thesis
    using assms by (auto simp: cache_inv_def split: if_splits)
qed

lemma handler_inv:
  assumes "cache_inv db"
  shows "cache_inv (table_of (generatePuzzleHandler s e db r))"
proof -
  have "table_of (generatePuzzleHandler s e db r) = db
      \<or> (\<exists>req b. generatePuzzleHandler s e db r = cache_or_generate s e db req b)"
    by (auto simp: generatePuzzleHandler_def table_of_def split: sum.splits)
  then show ?thesis
    using assms cache_or_generate_inv by auto
qed

lemma handler_saves:
  assumes "EvSaveCachedPuzzle h p d \<in> set (events_of (generatePuzzleHandler s e db r))"
  shows "h = requestHash_of p"
proof -
  have "events_of (generatePuzzleHandler s e db r) = []
      \<or> (\<exists>req b. generatePuzzleHandler s e db r = cache_or_generate s e db req b)"
    by (auto simp: generatePuzzleHandler_def events_of_def split: sum.splits)
  then show ?thesis
    using assms cache_or_generate_saves by fastforce
qed

lemma serve_inv: "cache_inv db \<Longrightarrow> cache_inv (serve s db rs)"
proof (induction rs arbitrary: db)
  case Nil
  then show ?case by simp
next
  case (Cons x rs)
  obtain e r where x: "x = (e, r)" by (cases x)
  have "cache_inv (table_of (generatePuzzleHandler s e db r))"
    using Cons.prems by (rule handler_inv)
  then have "cache_inv (serve s (table_of (generatePuzzleHandler s e db r)) rs)"
    by (rule Cons.IH)
  then show ?case by (simp add: x table_of_def)
qed

theorem C10_row_keyed_by_own_params:
  "(\<forall>h p d. EvSaveCachedPuzzle h p d \<in> set (events_of (generatePuzzleHandler s e db r))
        \<longrightarrow> h = hex_EncodeToString (sha256_Sum p))
   \<and> (cache_inv db \<longrightarrow> cache_inv (serve s db rs))
   \<and> cache_inv (serve s Map.empty rs)"
proof -
  have "cache_inv Map.empty" by (simp add: cache_inv_def)
  then show ?thesis
    using handler_saves serve_inv by (auto simp: requestHash_of_def)
qed


lemma handler_generated:
  assumes "Method r = ''POST''"
    and "json_Decode_PuzzleRequest (ReqBody r) = Inr req"
    and "fst (GetCachedPuzzle e db (requestHash_of (marshal_PuzzleRequest req))) = None"
    and "fst (GeneratePuzzle s e req) = Inr t"
  shows "generatePuzzleHandler s e db r
      = (write_json t,
         snd (SaveCachedPuzzle e db (requestHash_of (marshal_PuzzleRequest req))
                (marshal_PuzzleRequest req) t),
         [EvGetCachedPuzzle (requestHash_of (marshal_PuzzleRequest req)), EvGeneratePuzzle req]
           @ snd (GeneratePuzzle s e req)
           @ [EvSaveCachedPuzzle (requestHash_of (marshal_PuzzleRequest req))
                (marshal_PuzzleRequest req) t])"
proof -
  obtain evs where gen: "GeneratePuzzle s e req = (Inr t, evs)"
    using assms(4) by (cases "GeneratePuzzle s e req") simp
  show ?thesis
    using cache_or_generate_generated [OF assms(3) gen] handler_post [OF assms(1,2)] gen
    by simp
qed

lemma example_run:
  "generatePuzzleHandler example_service example_env Map.empty (post readme_body)
     = (write_json ''{}'',
        [requestHash_of example_bytes \<mapsto>
           \<lparr>request_params = example_bytes, response_data = ''{}'', created_at = 0\<rparr>],
        [EvGetCachedPuzzle (requestHash_of example_bytes), EvGeneratePuzzle example_request]
          @ snd (GeneratePuzzle example_service example_env example_request)
          @ [EvSaveCachedPuzzle (requestHash_of example_bytes) example_bytes ''{}''])"
proof -
  have 1: "Method (post readme_body) = ''POST''" by (simp add: post_simps)
  have 2: "json_Decode_PuzzleRequest (ReqBody (post readme_body)) = Inr example_request"
    by (simp add: post_simps decode_readme_body)
  have 3: "fst (GetCachedPuzzle example_env Map.empty
      (requestHash_of (marshal_PuzzleRequest example_request))) = None"
    by (simp add: GetCachedPuzzle_def)
  have 4: "fst (GeneratePuzzle example_service example_env example_request) = Inr ''{}''"
    by (rule GeneratePuzzle_example) (simp add: example_env_def)
  have "snd (SaveCachedPuzzle example_env Map.empty (requestHash_of example_bytes)
      example_bytes ''{}'')
      = [requestHash_of example_bytes \<mapsto>
           \<lparr>request_params = example_bytes, response_data = ''{}'', created_at = 0\<rparr>]"
    by (simp add: SaveCachedPuzzle_def example_env_def)
  then show ?thesis
    using handler_generated [OF 1 2 3 4] by (simp add: marshal_example_request)
qed

theorem C10_witness:
  "last (events_of (generatePuzzleHandler example_service example_env Map.empty (post readme_body)))
     = EvSaveCachedPuzzle (requestHash_of example_bytes) example_bytes ''{}''
   \<and> requestHash_of example_bytes = hex_EncodeToString (sha256_Sum example_bytes)
   \<and> serve example_service Map.empty [(example_env, post readme_body)]
        (requestHash_of example_bytes)
       = Some \<lparr>request_params = example_bytes, response_data = ''{}'', created_at = 0\<rparr>
   \<and> cache_inv Map.empty
   \<and> cache_inv (serve example_service Map.empty [(example_env, post readme_body)])"
proof -
  note T = C10_row_keyed_by_own_params [where s = example_service and e = example_env
      and db = Map.empty and r = "post readme_body" and rs = "[(example_env, post readme_body)]"]
  have inv: "cache_inv (serve example_service Map.empty [(example_env, post readme_body)])"
    using T by blast
  have "cache_inv Map.empty" by (simp add: cache_inv_def)
  then show ?thesis
    using inv by (simp add: example_run events_of_def requestHash_of_def)
qed

text \<open>
  C5, as stated, fails on the body of the \<^verbatim>\<open>curl\<close> call in the README of the repository.
  The body decodes to the request of the scenario; with an empty cache the handler
  writes one row, under the fingerprint of the serialization of the decoded request, and
  the table has no row under the hash of the bytes that were sent.
\<close>

theorem C5_counterexample:
  "json_Decode_PuzzleRequest (ReqBody (post readme_body)) = Inr example_request
   \<and> table_of (generatePuzzleHandler example_service example_env Map.empty (post readme_body))
        (requestHash_of (ReqBody (post readme_body))) = None
   \<and> table_of (generatePuzzleHandler example_service example_env Map.empty (post readme_body))
        (requestHash_of example_bytes)
       = Some \<lparr>request_params = example_bytes, response_data = ''{}'', created_at = 0\<rparr>
   \<and> requestHash_of (ReqBody (post readme_body))
       = ''0e40abb649b9c431a20d87c117318aa32f398cc693712c3ae0e1e33707a3685d''
   \<and> requestHash_of example_bytes
       = ''a0881fba48bc1179108379f9e0a8e3bebf065eaebb0737a5751943d92c75e4d8''"
proof -
  have "requestHash_of readme_body \<noteq> requestHash_of example_bytes"
    by (simp add: hash_readme_body hash_example_bytes)
  then show ?thesis
    by (simp add: example_run table_of_def post_simps decode_readme_body
        hash_readme_body hash_example_bytes)
qed

text \<open>
  C5, as amended.  For a POST request whose body decodes to the request
  \<^verbatim>\<open>{gameType:"crossword", difficulty:"easy", topics:["animals","nature"], language:"pt"}\<close>,
  with an empty cache, a provider that answers with status 200 and an envelope whose
  first candidate has the text \<open>t\<close>, and a cache write that succeeds: the table then
  holds exactly one row, keyed by the fingerprint of the serialization that
  \<^verbatim>\<open>json.Marshal\<close> gives of the decoded request, with that serialization as
  \<^verbatim>\<open>request_params\<close> and \<open>t\<close> as \<^verbatim>\<open>response_data\<close>; the response is \<open>t\<close> with status 200.
  The key is the hash of the bytes the caller sent when the caller sent exactly that
  serialization.
\<close>

theorem C5_scenario:
  assumes "Method r = ''POST''"
    and "json_Decode_PuzzleRequest (ReqBody r) = Inr example_request"
    and "apiKey s \<noteq> []" and "apiKey s \<noteq> ''YOUR_GEMINI_API_KEY_HERE''"
    and "\<And>url b. http_post e url b = Response 200 (Some reply)"
    and "extract_text 200 reply = Inr t"
    and "\<not> exec_fault e"
  shows "table_of (generatePuzzleHandler s e Map.empty r)
           = [requestHash_of (marshal_PuzzleRequest example_request) \<mapsto>
                \<lparr>request_params = marshal_PuzzleRequest example_request, response_data = t,
                 created_at = now e\<rparr>]
       \<and> marshal_PuzzleRequest example_request = example_bytes
       \<and> requestHash_of example_bytes
           = ''a0881fba48bc1179108379f9e0a8e3bebf065eaebb0737a5751943d92c75e4d8''
       \<and> response_of (generatePuzzleHandler s e Map.empty r) = write_json t
       \<and> (ReqBody r = example_bytes \<longrightarrow>
            dom (table_of (generatePuzzleHandler s e Map.empty r)) = {requestHash_of (ReqBody r)})"
proof -
  let ?b = "marshal_PuzzleRequest example_request"
  have miss: "fst (GetCachedPuzzle e Map.empty (requestHash_of ?b)) = None"
    by (simp add: GetCachedPuzzle_def)
  have gen: "fst (GeneratePuzzle s e example_request) = Inr t"
    using assms(3-6) by (rule GeneratePuzzle_answered)
  have run: "generatePuzzleHandler s e Map.empty r
      = (write_json t, snd (SaveCachedPuzzle e Map.empty (requestHash_of ?b) ?b t),
         [EvGetCachedPuzzle (requestHash_of ?b), EvGeneratePuzzle example_request]
           @ snd (GeneratePuzzle s e example_request)
           @ [EvSaveCachedPuzzle (requestHash_of ?b) ?b t])"
    using assms(1,2) miss gen by (rule handler_generated)
  have tab: "table_of (generatePuzzleHandler s e Map.empty r)
      = [requestHash_of ?b \<mapsto> \<lparr>request_params = ?b, response_data = t, created_at = now e\<rparr>]"
    using assms(7) by (simp add: run table_of_def SaveCachedPuzzle_ok)
  have resp: "response_of (generatePuzzleHandler s e Map.empty r) = write_json t"
    by (simp add: run response_of_def)
  show ?thesis
    using tab resp by (simp add: marshal_example_request hash_example_bytes)
qed

theorem C5_witness:
  "Method (post example_bytes) = ''POST''
   \<and> json_Decode_PuzzleRequest (ReqBody (post example_bytes)) = Inr example_request
   \<and> apiKey example_service \<noteq> [] \<and> apiKey example_service \<noteq> ''YOUR_GEMINI_API_KEY_HERE''
   \<and> http_post example_env = (\<lambda>url b. Response 200 (Some example_reply))
   \<and> extract_text 200 example_reply = Inr ''{}''
   \<and> \<not> exec_fault example_env
   \<and> table_of (generatePuzzleHandler example_service example_env Map.empty (post example_bytes))
       = [''a0881fba48bc1179108379f9e0a8e3bebf065eaebb0737a5751943d92c75e4d8'' \<mapsto>
            \<lparr>request_params = example_bytes, response_data = ''{}'', created_at = 0\<rparr>]
   \<and> response_of (generatePuzzleHandler example_service example_env Map.empty (post example_bytes))
       = write_json ''{}''
   \<and> dom (table_of (generatePuzzleHandler example_service example_env Map.empty
         (post example_bytes))) = {requestHash_of example_bytes}"
proof -
  have 1: "Method (post example_bytes) = ''POST''" by (simp add: post_simps)
  have 2: "json_Decode_PuzzleRequest (ReqBody (post example_bytes)) = Inr example_request"
    by (simp add: post_simps decode_example_bytes)
  have 3: "apiKey example_service \<noteq> []" by (simp add: example_service_def)
  have 4: "apiKey example_service \<noteq> ''YOUR_GEMINI_API_KEY_HERE''"
    by (simp add: example_service_def)
  have 5: "\<And>url b. http_post example_env url b = Response 200 (Some example_reply)"
    by (simp add: example_env_def)
  have 6: "extract_text 200 example_reply = Inr ''{}''" by (rule extract_example_reply)
  have 7: "\<not> exec_fault example_env" by (simp add: example_env_def)
  have 8: "now example_env = 0" by (simp add: example_env_def)
  note T = C5_scenario [where r = "post example_bytes" and s = example_service
      and e = example_env and reply = example_reply and t = "''{}''", OF 1 2 3 4 5 6 7]
  have a: "table_of (generatePuzzleHandler example_service example_env Map.empty
        (post example_bytes))
      = [requestHash_of (marshal_PuzzleRequest example_request) \<mapsto>
           \<lparr>request_params = marshal_PuzzleRequest example_request, response_data = ''{}'',
            created_at = now example_env\<rparr>]"
    using T by (rule conjunct1)
  have b: "response_of (generatePuzzleHandler example_service example_env Map.empty
        (post example_bytes)) = write_json ''{}''"
    using T by blast
  have c: "http_post example_env = (\<lambda>url b. Response 200 (Some example_reply))"
    by (simp add: example_env_def)
  show ?thesis
    using 1 2 3 4 6 7 c
    by (simp add: a b 8 marshal_example_request hash_example_bytes)
qed


text \<open>
  C6.  A request whose \<open>gameType\<close> is not \<^verbatim>\<open>crossword\<close>, whatever else it is (the empty
  string, too), is not rejected: \<^verbatim>\<open>GeneratePuzzle\<close> takes the second branch, with the
  word-search prompt and the word-search schema, and does on it what it does on the same
  request with \<open>gameType\<close> \<^verbatim>\<open>wordsearch\<close>.  With a key that is set, the call to the provider
  is always made, and when the provider answers with status 200 and an envelope whose
  first candidate has the text \<open>t\<close>, the result is \<open>t\<close>.
\<close>

theorem C6_other_game_type_is_word_search:
  assumes "GameType req \<noteq> ''crossword''"
  shows "gameTypeString req = ''word search puzzle''
       \<and> schemaBytes_of req = wordsearch_schema
       \<and> prompt_of e req
           = wordsearch_prompt (strings_ToLower (unicode_ToLower e) (Difficulty req))
               ''word search puzzle'' (Language req) (topicsString req)
       \<and> GeneratePuzzle s e req = GeneratePuzzle s e (req\<lparr>GameType := ''wordsearch''\<rparr>)
       \<and> (apiKey s \<noteq> [] \<and> apiKey s \<noteq> ''YOUR_GEMINI_API_KEY_HERE'' \<longrightarrow>
            (\<exists>b. GeneratePuzzle s e req
                   = call_provider e (geminiAPIURL @ ''?key='' @ apiKey s) b))
       \<and> (apiKey s \<noteq> [] \<and> apiKey s \<noteq> ''YOUR_GEMINI_API_KEY_HERE''
            \<and> (\<forall>url b. http_post e url b = Response 200 (Some reply))
            \<and> extract_text 200 reply = Inr t \<longrightarrow>
            fst (GeneratePuzzle s e req) = Inr t)"
proof -
  let ?w = "req\<lparr>GameType := ''wordsearch''\<rparr>"
  have g: "gameTypeString req = ''word search puzzle''"
    using assms by (simp add: gameTypeString_def)
  have sch: "schemaBytes_of req = wordsearch_schema"
    using assms by (simp add: schemaBytes_of_def)
  have p: "prompt_of e req
      = wordsearch_prompt (strings_ToLower (unicode_ToLower e) (Difficulty req))
          ''word search puzzle'' (Language req) (topicsString req)"
    using assms by (simp add: prompt_of_def gameTypeString_def)
  have "prompt_of e ?w = prompt_of e req"
    using assms
    by (simp add: prompt_of_def gameTypeString_def topicsString_def len_Topics_def)
  moreover have "responseSchema_of ?w = responseSchema_of req"
    using assms by (simp add: responseSchema_of_def schemaBytes_of_def)
  ultimately have "jsonReqBody_of e ?w = jsonReqBody_of e req"
    unfolding jsonReqBody_of_def by (simp only:)
  then have same: "GeneratePuzzle s e req = GeneratePuzzle s e ?w"
    unfolding GeneratePuzzle_def by (simp only:)
  obtain b where b: "jsonReqBody_of e req = Inr b"
    using jsonReqBody_of_total by blast
  have sent: "apiKey s \<noteq> [] \<and> apiKey s \<noteq> ''YOUR_GEMINI_API_KEY_HERE'' \<longrightarrow>
      (\<exists>b. GeneratePuzzle s e req = call_provider e (geminiAPIURL @ ''?key='' @ apiKey s) b)"
    using b GeneratePuzzle_valid_key by blast
  have ans: "apiKey s \<noteq> [] \<and> apiKey s \<noteq> ''YOUR_GEMINI_API_KEY_HERE''
      \<and> (\<forall>url b. http_post e url b = Response 200 (Some reply))
      \<and> extract_text 200 reply = Inr t \<longrightarrow> fst (GeneratePuzzle s e req) = Inr t"
    using GeneratePuzzle_answered by blast
  show ?thesis
    using g sch p same sent ans by blast
qed

theorem C6_witness:
  "GameType untyped_request \<noteq> ''crossword''
   \<and> GameType untyped_request = []
   \<and> gameTypeString untyped_request = ''word search puzzle''
   \<and> schemaBytes_of untyped_request = wordsearch_schema
   \<and> apiKey example_service \<noteq> [] \<and> apiKey example_service \<noteq> ''YOUR_GEMINI_API_KEY_HERE''
   \<and> http_post example_env = (\<lambda>url b. Response 200 (Some example_reply))
   \<and> extract_text 200 example_reply = Inr ''{}''
   \<and> fst (GeneratePuzzle example_service example_env untyped_request) = Inr ''{}''"
proof -
  have 1: "GameType untyped_request \<noteq> ''crossword''" by (simp add: untyped_request_def)
  have 3: "apiKey example_service \<noteq> []" by (simp add: example_service_def)
  have 4: "apiKey example_service \<noteq> ''YOUR_GEMINI_API_KEY_HERE''"
    by (simp add: example_service_def)
  have 5: "\<forall>url b. http_post example_env url b = Response 200 (Some example_reply)"
    by (simp add: example_env_def)
  have 6: "extract_text 200 example_reply = Inr ''{}''" by (rule extract_example_reply)
  note T = C6_other_game_type_is_word_search [where req = untyped_request
      and s = example_service and e = example_env and reply = example_reply
      and t = "''{}''", OF 1]
  have a: "gameTypeString untyped_request = ''word search puzzle''"
    using T by (rule conjunct1)
  have b: "schemaBytes_of untyped_request = wordsearch_schema"
    using T by blast
  have c: "fst (GeneratePuzzle example_service example_env untyped_request) = Inr ''{}''"
    using T 3 4 5 6 by blast
  have d: "http_post example_env = (\<lambda>url b. Response 200 (Some example_reply))"
    by (simp add: example_env_def)
  have e: "GameType untyped_request = []" by (simp add: untyped_request_def)
  show ?thesis
    using 1 3 4 6 a b c d e by simp
qed

text \<open>
  C7.  The prompt that \<^verbatim>\<open>GeneratePuzzle\<close> builds is the text of the template of the branch
  with the values of the request in it: after a line break and three tabs it reads
  \<^verbatim>\<open>Generate a\<close>, the difficulty in lower case (\<^verbatim>\<open>strings.ToLower\<close>), the game type phrase,
  \<^verbatim>\<open>in\<close>, the language and a full stop; the next line is the topics clause; the rest is the
  fixed text of the branch.  The topics clause is, when there are topics, the word
  \<^verbatim>\<open>about\<close> followed by the topics joined by a comma and a space, and the fixed phrase
  \<^verbatim>\<open>general knowledge\<close> when the list of topics is empty or \<^verbatim>\<open>nil\<close>.  A difficulty of ASCII
  characters keeps its length and has no upper-case letter left.  With a key that is
  set, this prompt is the text of the one part of the request sent to the provider.
\<close>

theorem C7_prompt_interpolation:
  \<open>prompt_of e req
     = [CHR 0x0A] @ [CHR 0x09, CHR 0x09, CHR 0x09] @ ''Generate a ''
         @ strings_ToLower (unicode_ToLower e) (Difficulty req) @ '' ''
         @ (if GameType req = ''crossword'' then ''crossword puzzle'' else ''word search puzzle'')
         @ '' in '' @ Language req @ ''.'' @ [CHR 0x0A]
       @ [CHR 0x09, CHR 0x09, CHR 0x09]
         @ (case Topics req of
              Some (t # ts) \<Rightarrow> ''about '' @ strings_Join (t # ts) '', ''
            | _ \<Rightarrow> ''general knowledge'')
         @ [CHR 0x0A]
       @ (if GameType req = ''crossword''
          then
            ([CHR 0x09, CHR 0x09, CHR 0x09] @ ''Provide a grid of 8x8 to 10x10.'' @ [CHR 0x0A]
              @ [CHR 0x09, CHR 0x09, CHR 0x09] @ ''Return the data as a JSON object with 'gameType' (crossword), 'difficulty', 'topics', and 'crosswordData'.'' @ [CHR 0x0A]
              @ [CHR 0x09, CHR 0x09, CHR 0x09] @ [CHR 0x27] @ ''crosswordData' should contain 'gridSize' (rows, cols) and an array of 'words'.'' @ [CHR 0x0A]
              @ [CHR 0x09, CHR 0x09, CHR 0x09] @ ''Each 'word' object should have 'word', 'clue', 'startRow', 'startCol' (0-indexed), and 'direction' ('across' or 'down').'' @ [CHR 0x0A]
              @ [CHR 0x09, CHR 0x09, CHR 0x09] @ ''Ensure words fit the grid and intersect correctly without gaps. All cells in a word must be valid letters.'' @ [CHR 0x0A]
              @ [CHR 0x09, CHR 0x09, CHR 0x09] @ ''Prioritize well-formed and solvable puzzles.'' @ [CHR 0x0A]
              @ [CHR 0x09, CHR 0x09])
          else
            ([CHR 0x09, CHR 0x09, CHR 0x09] @ ''Provide a grid size based on difficulty: Easy (10x10), Medium (12x12), Hard (15x15).'' @ [CHR 0x0A]
              @ [CHR 0x09, CHR 0x09, CHR 0x09] @ ''Return the data as a JSON object with 'gameType' (wordsearch), 'difficulty', 'topics', and 'wordSearchData'.'' @ [CHR 0x0A]
              @ [CHR 0x09, CHR 0x09, CHR 0x09] @ [CHR 0x27] @ ''wordSearchData' should contain 'gridSize' (rows, cols) and a list of 'wordsToFind'.'' @ [CHR 0x0A]
              @ [CHR 0x09, CHR 0x09, CHR 0x09] @ ''**Crucially, do NOT generate the full grid of letters. ONLY provide gridSize and wordsToFind.**'' @ [CHR 0x0A]
              @ [CHR 0x09, CHR 0x09, CHR 0x09] @ ''The 'wordsToFind' list should contain 10-15 unique words (depending on difficulty) that are relevant to the topics and suitable for a word search puzzle (e.g., no spaces, only letters, common vocabulary).'' @ [CHR 0x0A]
              @ [CHR 0x09, CHR 0x09, CHR 0x09] @ ''Ensure these words are always in the uppercase.'' @ [CHR 0x0A]
              @ [CHR 0x09, CHR 0x09, CHR 0x09] @ ''Prioritize well-formed words and a good mix for the chosen difficulty.'' @ [CHR 0x0A]
              @ [CHR 0x09, CHR 0x09]))
   \<and> prompt_of e req
       = (if GameType req = ''crossword'' then crossword_prompt else wordsearch_prompt)
           (strings_ToLower (unicode_ToLower e) (Difficulty req))
           (gameTypeString req) (Language req) (topicsString req)
   \<and> topicsString req
       = (case Topics req of
            Some (t # ts) \<Rightarrow> ''about '' @ strings_Join (t # ts) '', ''
          | _ \<Rightarrow> ''general knowledge'')
   \<and> (list_all (\<lambda>c. (of_char c :: nat) < 128) (Difficulty req) \<longrightarrow>
        length (strings_ToLower (unicode_ToLower e) (Difficulty req)) = length (Difficulty req)
        \<and> list_all (\<lambda>c. \<not> between 65 90 (of_char c))
              (strings_ToLower (unicode_ToLower e) (Difficulty req)))
   \<and> (apiKey s \<noteq> [] \<and> apiKey s \<noteq> ''YOUR_GEMINI_API_KEY_HERE'' \<longrightarrow>
        (\<exists>schema. GeneratePuzzle s e req
           = call_provider e (geminiAPIURL @ ''?key='' @ apiKey s)
               (''{"contents":[{"parts":[{"text":'' @ appendString (prompt_of e req)
                @ ''}]}],"generationConfig":{"responseMimeType":"application/json",''
                @ ''"responseSchema":'' @ schema
                @ '',"temperature":0.7,"topP":0.9,"topK":40}}'')))\<close>
proof -
  have t: "topicsString req
      = (case Topics req of
           Some (t # ts) \<Rightarrow> ''about '' @ strings_Join (t # ts) '', ''
         | _ \<Rightarrow> ''general knowledge'')"
    by (simp add: topicsString_def len_Topics_def split: option.splits list.splits)
  have p: "prompt_of e req
      = (if GameType req = ''crossword'' then crossword_prompt else wordsearch_prompt)
          (strings_ToLower (unicode_ToLower e) (Difficulty req))
          (gameTypeString req) (Language req) (topicsString req)"
    by (simp add: prompt_of_def)
  have x: \<open>(if GameType req = ''crossword'' then crossword_prompt else wordsearch_prompt)
          (strings_ToLower (unicode_ToLower e) (Difficulty req))
          (gameTypeString req) (Language req) (topicsString req)
      = [CHR 0x0A] @ [CHR 0x09, CHR 0x09, CHR 0x09] @ ''Generate a ''
          @ strings_ToLower (unicode_ToLower e) (Difficulty req) @ '' ''
          @ (if GameType req = ''crossword'' then ''crossword puzzle'' else ''word search puzzle'')
          @ '' in '' @ Language req @ ''.'' @ [CHR 0x0A]
        @ [CHR 0x09, CHR 0x09, CHR 0x09] @ topicsString req @ [CHR 0x0A]
        @ (if GameType req = ''crossword''
           then
             ([CHR 0x09, CHR 0x09, CHR 0x09] @ ''Provide a grid of 8x8 to 10x10.'' @ [CHR 0x0A]
              @ [CHR 0x09, CHR 0x09, CHR 0x09] @ ''Return the data as a JSON object with 'gameType' (crossword), 'difficulty', 'topics', and 'crosswordData'.'' @ [CHR 0x0A]
              @ [CHR 0x09, CHR 0x09, CHR 0x09] @ [CHR 0x27] @ ''crosswordData' should contain 'gridSize' (rows, cols) and an array of 'words'.'' @ [CHR 0x0A]
              @ [CHR 0x09, CHR 0x09, CHR 0x09] @ ''Each 'word' object should have 'word', 'clue', 'startRow', 'startCol' (0-indexed), and 'direction' ('across' or 'down').'' @ [CHR 0x0A]
              @ [CHR 0x09, CHR 0x09, CHR 0x09] @ ''Ensure words fit the grid and intersect correctly without gaps. All cells in a word must be valid letters.'' @ [CHR 0x0A]
              @ [CHR 0x09, CHR 0x09, CHR 0x09] @ ''Prioritize well-formed and solvable puzzles.'' @ [CHR 0x0A]
              @ [CHR 0x09, CHR 0x09])
           else
             ([CHR 0x09, CHR 0x09, CHR 0x09] @ ''Provide a grid size based on difficulty: Easy (10x10), Medium (12x12), Hard (15x15).'' @ [CHR 0x0A]
              @ [CHR 0x09, CHR 0x09, CHR 0x09] @ ''Return the data as a JSON object with 'gameType' (wordsearch), 'difficulty', 'topics', and 'wordSearchData'.'' @ [CHR 0x0A]
              @ [CHR 0x09, CHR 0x09, CHR 0x09] @ [CHR 0x27] @ ''wordSearchData' should contain 'gridSize' (rows, cols) and a list of 'wordsToFind'.'' @ [CHR 0x0A]
              @ [CHR 0x09, CHR 0x09, CHR 0x09] @ ''**Crucially, do NOT generate the full grid of letters. ONLY provide gridSize and wordsToFind.**'' @ [CHR 0x0A]
              @ [CHR 0x09, CHR 0x09, CHR 0x09] @ ''The 'wordsToFind' list should contain 10-15 unique words (depending on difficulty) that are relevant to the topics and suitable for a word search puzzle (e.g., no spaces, only letters, common vocabulary).'' @ [CHR 0x0A]
              @ [CHR 0x09, CHR 0x09, CHR 0x09] @ ''Ensure these words are always in the uppercase.'' @ [CHR 0x0A]
              @ [CHR 0x09, CHR 0x09, CHR 0x09] @ ''Prioritize well-formed words and a good mix for the chosen difficulty.'' @ [CHR 0x0A]
              @ [CHR 0x09, CHR 0x09]))\<close>
    by (simp add: crossword_prompt_def wordsearch_prompt_def gameTypeString_def nl_def tabs_def
        replicate_numeral)
  have l: "list_all (\<lambda>c. (of_char c :: nat) < 128) (Difficulty req) \<longrightarrow>
      length (strings_ToLower (unicode_ToLower e) (Difficulty req)) = length (Difficulty req)
      \<and> list_all (\<lambda>c. \<not> between 65 90 (of_char c))
            (strings_ToLower (unicode_ToLower e) (Difficulty req))"
    by (auto simp: strings_ToLower_def list_all_iff between_def)
  obtain schema where sch: "responseSchema_of req = Inr schema"
    using responseSchema_of_crossword [of req] responseSchema_of_wordsearch [of req]
    by (cases "GameType req = ''crossword''") auto
  have b: \<open>jsonReqBody_of e req
      = Inr (''{"contents":[{"parts":[{"text":'' @ appendString (prompt_of e req)
             @ ''}]}],"generationConfig":{"responseMimeType":"application/json",''
             @ ''"responseSchema":'' @ schema
             @ '',"temperature":0.7,"topP":0.9,"topK":40}}'')\<close>
    by (simp add: jsonReqBody_of_def sch json_Marshal_GeminiRequest_def)
  have g: \<open>apiKey s \<noteq> [] \<and> apiKey s \<noteq> ''YOUR_GEMINI_API_KEY_HERE'' \<longrightarrow>
      (\<exists>schema. GeneratePuzzle s e req
         = call_provider e (geminiAPIURL @ ''?key='' @ apiKey s)
             (''{"contents":[{"parts":[{"text":'' @ appendString (prompt_of e req)
              @ ''}]}],"generationConfig":{"responseMimeType":"application/json",''
              @ ''"responseSchema":'' @ schema
              @ '',"temperature":0.7,"topP":0.9,"topK":40}}''))\<close>
    using GeneratePuzzle_valid_key [OF _ _ b] by blast
  from p x t have full: \<open>prompt_of e req
      = [CHR 0x0A] @ [CHR 0x09, CHR 0x09, CHR 0x09] @ ''Generate a ''
          @ strings_ToLower (unicode_ToLower e) (Difficulty req) @ '' ''
          @ (if GameType req = ''crossword'' then ''crossword puzzle'' else ''word search puzzle'')
          @ '' in '' @ Language req @ ''.'' @ [CHR 0x0A]
        @ [CHR 0x09, CHR 0x09, CHR 0x09]
          @ (case Topics req of
               Some (t # ts) \<Rightarrow> ''about '' @ strings_Join (t # ts) '', ''
             | _ \<Rightarrow> ''general knowledge'')
          @ [CHR 0x0A]
        @ (if GameType req = ''crossword''
           then
             ([CHR 0x09, CHR 0x09, CHR 0x09] @ ''Provide a grid of 8x8 to 10x10.'' @ [CHR 0x0A]
              @ [CHR 0x09, CHR 0x09, CHR 0x09] @ ''Return the data as a JSON object with 'gameType' (crossword), 'difficulty', 'topics', and 'crosswordData'.'' @ [CHR 0x0A]
              @ [CHR 0x09, CHR 0x09, CHR 0x09] @ [CHR 0x27] @ ''crosswordData' should contain 'gridSize' (rows, cols) and an array of 'words'.'' @ [CHR 0x0A]
              @ [CHR 0x09, CHR 0x09, CHR 0x09] @ ''Each 'word' object should have 'word', 'clue', 'startRow', 'startCol' (0-indexed), and 'direction' ('across' or 'down').'' @ [CHR 0x0A]
              @ [CHR 0x09, CHR 0x09, CHR 0x09] @ ''Ensure words fit the grid and intersect correctly without gaps. All cells in a word must be valid letters.'' @ [CHR 0x0A]
              @ [CHR 0x09, CHR 0x09, CHR 0x09] @ ''Prioritize well-formed and solvable puzzles.'' @ [CHR 0x0A]
              @ [CHR 0x09, CHR 0x09])
           else
             ([CHR 0x09, CHR 0x09, CHR 0x09] @ ''Provide a grid size based on difficulty: Easy (10x10), Medium (12x12), Hard (15x15).'' @ [CHR 0x0A]
              @ [CHR 0x09, CHR 0x09, CHR 0x09] @ ''Return the data as a JSON object with 'gameType' (wordsearch), 'difficulty', 'topics', and 'wordSearchData'.'' @ [CHR 0x0A]
              @ [CHR 0x09, CHR 0x09, CHR 0x09] @ [CHR 0x27] @ ''wordSearchData' should contain 'gridSize' (rows, cols) and a list of 'wordsToFind'.'' @ [CHR 0x0A]
              @ [CHR 0x09, CHR 0x09, CHR 0x09] @ ''**Crucially, do NOT generate the full grid of letters. ONLY provide gridSize and wordsToFind.**'' @ [CHR 0x0A]
              @ [CHR 0x09, CHR 0x09, CHR 0x09] @ ''The 'wordsToFind' list should contain 10-15 unique words (depending on difficulty) that are relevant to the topics and suitable for a word search puzzle (e.g., no spaces, only letters, common vocabulary).'' @ [CHR 0x0A]
              @ [CHR 0x09, CHR 0x09, CHR 0x09] @ ''Ensure these words are always in the uppercase.'' @ [CHR 0x0A]
              @ [CHR 0x09, CHR 0x09, CHR 0x09] @ ''Prioritize well-formed words and a good mix for the chosen difficulty.'' @ [CHR 0x0A]
              @ [CHR 0x09, CHR 0x09]))\<close>
    by (simp only:)
  show ?thesis
    apply (rule conjI)
     apply (rule full)
    apply (rule conjI)
     apply (rule p)
    apply (rule conjI)
     apply (rule t)
    apply (rule conjI)
     apply (rule l)
    apply (rule g)
    done
qed

theorem C7_witness:
  \<open>list_all (\<lambda>c. (of_char c :: nat) < 128) (Difficulty untyped_request)
   \<and> Difficulty untyped_request = ''HARD''
   \<and> strings_ToLower (unicode_ToLower example_env) (Difficulty untyped_request) = ''hard''
   \<and> length (strings_ToLower (unicode_ToLower example_env) (Difficulty untyped_request)) = 4
   \<and> apiKey example_service \<noteq> [] \<and> apiKey example_service \<noteq> ''YOUR_GEMINI_API_KEY_HERE''
   \<and> prompt_of example_env example_request
       = [CHR 0x0A] @ [CHR 0x09, CHR 0x09, CHR 0x09] @ ''Generate a '' @ ''easy'' @ '' ''
           @ ''crossword puzzle'' @ '' in '' @ ''pt'' @ ''.'' @ [CHR 0x0A]
         @ [CHR 0x09, CHR 0x09, CHR 0x09]
           @ (''about '' @ ''animals'' @ '', '' @ ''nature'') @ [CHR 0x0A]
         @ ([CHR 0x09, CHR 0x09, CHR 0x09] @ ''Provide a grid of 8x8 to 10x10.'' @ [CHR 0x0A]
         @ [CHR 0x09, CHR 0x09, CHR 0x09] @ ''Return the data as a JSON object with 'gameType' (crossword), 'difficulty', 'topics', and 'crosswordData'.'' @ [CHR 0x0A]
         @ [CHR 0x09, CHR 0x09, CHR 0x09] @ [CHR 0x27] @ ''crosswordData' should contain 'gridSize' (rows, cols) and an array of 'words'.'' @ [CHR 0x0A]
         @ [CHR 0x09, CHR 0x09, CHR 0x09] @ ''Each 'word' object should have 'word', 'clue', 'startRow', 'startCol' (0-indexed), and 'direction' ('across' or 'down').'' @ [CHR 0x0A]
         @ [CHR 0x09, CHR 0x09, CHR 0x09] @ ''Ensure words fit the grid and intersect correctly without gaps. All cells in a word must be valid letters.'' @ [CHR 0x0A]
         @ [CHR 0x09, CHR 0x09, CHR 0x09] @ ''Prioritize well-formed and solvable puzzles.'' @ [CHR 0x0A]
         @ [CHR 0x09, CHR 0x09])
   \<and> prompt_of example_env untyped_request
       = [CHR 0x0A] @ [CHR 0x09, CHR 0x09, CHR 0x09] @ ''Generate a '' @ ''hard'' @ '' ''
           @ ''word search puzzle'' @ '' in '' @ ''en'' @ ''.'' @ [CHR 0x0A]
         @ [CHR 0x09, CHR 0x09, CHR 0x09] @ ''general knowledge'' @ [CHR 0x0A]
         @ ([CHR 0x09, CHR 0x09, CHR 0x09] @ ''Provide a grid size based on difficulty: Easy (10x10), Medium (12x12), Hard (15x15).'' @ [CHR 0x0A]
         @ [CHR 0x09, CHR 0x09, CHR 0x09] @ ''Return the data as a JSON object with 'gameType' (wordsearch), 'difficulty', 'topics', and 'wordSearchData'.'' @ [CHR 0x0A]
         @ [CHR 0x09, CHR 0x09, CHR 0x09] @ [CHR 0x27] @ ''wordSearchData' should contain 'gridSize' (rows, cols) and a list of 'wordsToFind'.'' @ [CHR 0x0A]
         @ [CHR 0x09, CHR 0x09, CHR 0x09] @ ''**Crucially, do NOT generate the full grid of letters. ONLY provide gridSize and wordsToFind.**'' @ [CHR 0x0A]
         @ [CHR 0x09, CHR 0x09, CHR 0x09] @ ''The 'wordsToFind' list should contain 10-15 unique words (depending on difficulty) that are relevant to the topics and suitable for a word search puzzle (e.g., no spaces, only letters, common vocabulary).'' @ [CHR 0x0A]
         @ [CHR 0x09, CHR 0x09, CHR 0x09] @ ''Ensure these words are always in the uppercase.'' @ [CHR 0x0A]
         @ [CHR 0x09, CHR 0x09, CHR 0x09] @ ''Prioritize well-formed words and a good mix for the chosen difficulty.'' @ [CHR 0x0A]
         @ [CHR 0x09, CHR 0x09])\<close>
proof -
  note T1 = C7_prompt_interpolation [where req = example_request and e = example_env
      and s = example_service]
  note T2 = C7_prompt_interpolation [where req = untyped_request and e = example_env
      and s = example_service]
  have a: "list_all (\<lambda>c. (of_char c :: nat) < 128) (Difficulty untyped_request)"
    by (simp add: untyped_request_def)
  have d: "Difficulty untyped_request = ''HARD''" by (simp add: untyped_request_def)
  have l1: "strings_ToLower (unicode_ToLower example_env) (Difficulty example_request) = ''easy''"
    by (simp add: strings_ToLower_def example_request_def between_def)
  have l2: "strings_ToLower (unicode_ToLower example_env) (Difficulty untyped_request) = ''hard''"
    by (simp add: strings_ToLower_def untyped_request_def between_def char_of_def bit_Suc_0_iff)
  have len: "length (strings_ToLower (unicode_ToLower example_env) (Difficulty untyped_request)) = 4"
    using T2 a d by simp
  have g1: "(GameType example_request = ''crossword'') = True"
    by (simp add: example_request_def)
  have g2: "(GameType untyped_request = ''crossword'') = False"
    by (simp add: untyped_request_def)
  have lang1: "Language example_request = ''pt''" by (simp add: example_request_def)
  have lang2: "Language untyped_request = ''en''" by (simp add: untyped_request_def)
  have c1: "(case Topics example_request of
        Some (t # ts) \<Rightarrow> ''about '' @ strings_Join (t # ts) '', ''
      | _ \<Rightarrow> ''general knowledge'') = ''about '' @ ''animals'' @ '', '' @ ''nature''"
    by (simp add: example_request_def)
  have c2: "(case Topics untyped_request of
        Some (t # ts) \<Rightarrow> ''about '' @ strings_Join (t # ts) '', ''
      | _ \<Rightarrow> ''general knowledge'') = ''general knowledge''"
    by (simp add: untyped_request_def)
  have p1: \<open>prompt_of example_env example_request
      = [CHR 0x0A] @ [CHR 0x09, CHR 0x09, CHR 0x09] @ ''Generate a '' @ ''easy'' @ '' ''
          @ ''crossword puzzle'' @ '' in '' @ ''pt'' @ ''.'' @ [CHR 0x0A]
        @ [CHR 0x09, CHR 0x09, CHR 0x09]
          @ (''about '' @ ''animals'' @ '', '' @ ''nature'') @ [CHR 0x0A]
        @ ([CHR 0x09, CHR 0x09, CHR 0x09] @ ''Provide a grid of 8x8 to 10x10.'' @ [CHR 0x0A]
        @ [CHR 0x09, CHR 0x09, CHR 0x09] @ ''Return the data as a JSON object with 'gameType' (crossword), 'difficulty', 'topics', and 'crosswordData'.'' @ [CHR 0x0A]
        @ [CHR 0x09, CHR 0x09, CHR 0x09] @ [CHR 0x27] @ ''crosswordData' should contain 'gridSize' (rows, cols) and an array of 'words'.'' @ [CHR 0x0A]
        @ [CHR 0x09, CHR 0x09, CHR 0x09] @ ''Each 'word' object should have 'word', 'clue', 'startRow', 'startCol' (0-indexed), and 'direction' ('across' or 'down').'' @ [CHR 0x0A]
        @ [CHR 0x09, CHR 0x09, CHR 0x09] @ ''Ensure words fit the grid and intersect correctly without gaps. All cells in a word must be valid letters.'' @ [CHR 0x0A]
        @ [CHR 0x09, CHR 0x09, CHR 0x09] @ ''Prioritize well-formed and solvable puzzles.'' @ [CHR 0x0A]
        @ [CHR 0x09, CHR 0x09])\<close>
    using conjunct1 [OF T1] unfolding g1 lang1 c1 l1 if_True by (rule trans) (rule refl)
  have p2: \<open>prompt_of example_env untyped_request
      = [CHR 0x0A] @ [CHR 0x09, CHR 0x09, CHR 0x09] @ ''Generate a '' @ ''hard'' @ '' ''
          @ ''word search puzzle'' @ '' in '' @ ''en'' @ ''.'' @ [CHR 0x0A]
        @ [CHR 0x09, CHR 0x09, CHR 0x09] @ ''general knowledge'' @ [CHR 0x0A]
        @ ([CHR 0x09, CHR 0x09, CHR 0x09] @ ''Provide a grid size based on difficulty: Easy (10x10), Medium (12x12), Hard (15x15).'' @ [CHR 0x0A]
        @ [CHR 0x09, CHR 0x09, CHR 0x09] @ ''Return the data as a JSON object with 'gameType' (wordsearch), 'difficulty', 'topics', and 'wordSearchData'.'' @ [CHR 0x0A]
        @ [CHR 0x09, CHR 0x09, CHR 0x09] @ [CHR 0x27] @ ''wordSearchData' should contain 'gridSize' (rows, cols) and a list of 'wordsToFind'.'' @ [CHR 0x0A]
        @ [CHR 0x09, CHR 0x09, CHR 0x09] @ ''**Crucially, do NOT generate the full grid of letters. ONLY provide gridSize and wordsToFind.**'' @ [CHR 0x0A]
        @ [CHR 0x09, CHR 0x09, CHR 0x09] @ ''The 'wordsToFind' list should contain 10-15 unique words (depending on difficulty) that are relevant to the topics and suitable for a word search puzzle (e.g., no spaces, only letters, common vocabulary).'' @ [CHR 0x0A]
        @ [CHR 0x09, CHR 0x09, CHR 0x09] @ ''Ensure these words are always in the uppercase.'' @ [CHR 0x0A]
        @ [CHR 0x09, CHR 0x09, CHR 0x09] @ ''Prioritize well-formed words and a good mix for the chosen difficulty.'' @ [CHR 0x0A]
        @ [CHR 0x09, CHR 0x09])\<close>
    using conjunct1 [OF T2] unfolding g2 lang2 c2 l2 if_False by (rule trans) (rule refl)
  have k: "apiKey example_service \<noteq> [] \<and> apiKey example_service \<noteq> ''YOUR_GEMINI_API_KEY_HERE''"
    by (simp add: example_service_def)
  show ?thesis
    apply (rule conjI)
     apply (rule a)
    apply (rule conjI)
     apply (rule d)
    apply (rule conjI)
     apply (rule l2)
    apply (rule conjI)
     apply (rule len)
    apply (rule conjI)
     apply (rule conjunct1 [OF k])
    apply (rule conjI)
     apply (rule conjunct2 [OF k])
    apply (rule conjI)
     apply (rule p1)
    apply (rule p2)
    done
qed


end
